theory Spec2Isabelle
  imports Main "HOL-Library.Word" "HOL-Library.Signed_Division"
begin

unbundle bit_operations_syntax

section \<open>Si4703 FM receiver driver: data model\<close>

text \<open>
  The driver (\<^verbatim>\<open>Si4703.cpp\<close>, \<^verbatim>\<open>Si4703.h\<close>) keeps a 16-word shadow of the chip's
  register file, refreshes it with one block read over the two-wire bus, changes
  bitfields in the shadow and writes six control words back.

  Modelling decisions:
  \<^item> C++ \<^verbatim>\<open>int\<close> is \<^typ>\<open>int\<close>, which is exact as long as no value leaves the range
    of the machine's \<^verbatim>\<open>int\<close>. Overflow of a signed \<^verbatim>\<open>int\<close> is undefined behaviour
    and is not modelled. The statements about frequencies therefore assume band fields
    for which every sum, difference and product the driver forms lies between -32768
    and 32767, the range of the narrowest \<^verbatim>\<open>int\<close> of the Arduino cores (\<open>band_ok\<close>,
    \<open>readback_ok\<close>), and they state that these values do; the nine band tables of
    \<^verbatim>\<open>setRegion\<close> qualify. \<^verbatim>\<open>uint16_t\<close> is \<^typ>\<open>16 word\<close> and
    \<^verbatim>\<open>uint8_t\<close>/\<^verbatim>\<open>byte\<close> is \<^typ>\<open>8 word\<close>.
  \<^item> \<^verbatim>\<open>union shadow_t\<close> overlays \<^verbatim>\<open>word[16]\<close> with sixteen two-byte register
    unions, so the k-th member of \<^verbatim>\<open>struct reg\<close> is \<^verbatim>\<open>word[k]\<close>. The shadow is a
    function from the index to the word.
  \<^item> Bitfields are allocated from the least significant bit upwards, in declaration
    order (the GCC convention on the little-endian targets of the Arduino cores, AVR and
    ESP32). A field is a register, an offset and a width.
  \<^item> The private members \<^verbatim>\<open>_band\<close>, \<^verbatim>\<open>_bandStart\<close>, ... are the record fields
    \<open>m_band\<close>, \<open>m_bandStart\<close>, ... (an Isabelle name cannot start with an underscore).
\<close>

type_synonym u8 = "8 word"
type_synonym u16 = "16 word"

subsection \<open>Constants of the header\<close>

definition BAND_US_EU :: int where "BAND_US_EU = 0"
definition BAND_JPW :: int where "BAND_JPW = 1"
definition BAND_JP :: int where "BAND_JP = 2"

definition SPACE_200KHz :: int where "SPACE_200KHz = 0"
definition SPACE_100KHz :: int where "SPACE_100KHz = 1"
definition SPACE_50KHz :: int where "SPACE_50KHz = 2"

definition GPIO1 :: int where "GPIO1 = 1"
definition GPIO2 :: int where "GPIO2 = 2"
definition GPIO3 :: int where "GPIO3 = 3"

definition GPIO_Z :: int where "GPIO_Z = 0"
definition BLA_31_49 :: int where "BLA_31_49 = 0"
definition SMA_16dB :: int where "SMA_16dB = 0"
definition SMRR_Fastest :: int where "SMRR_Fastest = 0"

text \<open>\<^verbatim>\<open>SEEK_DOWN\<close> and \<^verbatim>\<open>SEEK_UP\<close> are declared \<^verbatim>\<open>uint16_t\<close> and only ever passed to
  \<^verbatim>\<open>seek(byte)\<close>, so they are given as bytes.\<close>

definition I2C_ADDR :: int where "I2C_ADDR = 0x10"
definition SEEK_DOWN :: u8 where "SEEK_DOWN = 0"
definition SEEK_UP :: u8 where "SEEK_UP = 1"

subsection \<open>The registers of \<^verbatim>\<open>struct reg\<close> and their bitfields\<close>

datatype reg =
    STATUSRSSI | READCHAN | RDSA | RDSB | RDSC | RDSD
  | DEVICEID | CHIPID
  | POWERCFG | CHANNEL | SYSCONFIG1 | SYSCONFIG2 | SYSCONFIG3 | TEST1
  | TEST2 | BOOTCONFIG

text \<open>The members of \<^verbatim>\<open>struct reg\<close> in declaration order: the position is the index
  into \<^verbatim>\<open>shadow.word\<close>.\<close>

definition reg_members :: "reg list" where
  "reg_members =
    [STATUSRSSI, READCHAN, RDSA, RDSB, RDSC, RDSD, DEVICEID, CHIPID,
     POWERCFG, CHANNEL, SYSCONFIG1, SYSCONFIG2, SYSCONFIG3, TEST1, TEST2, BOOTCONFIG]"

fun reg_index :: "reg \<Rightarrow> nat" where
  "reg_index STATUSRSSI = 0"
| "reg_index READCHAN = 1"
| "reg_index RDSA = 2"
| "reg_index RDSB = 3"
| "reg_index RDSC = 4"
| "reg_index RDSD = 5"
| "reg_index DEVICEID = 6"
| "reg_index CHIPID = 7"
| "reg_index POWERCFG = 8"
| "reg_index CHANNEL = 9"
| "reg_index SYSCONFIG1 = 10"
| "reg_index SYSCONFIG2 = 11"
| "reg_index SYSCONFIG3 = 12"
| "reg_index TEST1 = 13"
| "reg_index TEST2 = 14"
| "reg_index BOOTCONFIG = 15"

text \<open>The device address of each register, as the comments of \<^verbatim>\<open>struct reg\<close> give it.\<close>

fun reg_addr :: "reg \<Rightarrow> nat" where
  "reg_addr STATUSRSSI = 0x0A"
| "reg_addr READCHAN = 0x0B"
| "reg_addr RDSA = 0x0C"
| "reg_addr RDSB = 0x0D"
| "reg_addr RDSC = 0x0E"
| "reg_addr RDSD = 0x0F"
| "reg_addr DEVICEID = 0x00"
| "reg_addr CHIPID = 0x01"
| "reg_addr POWERCFG = 0x02"
| "reg_addr CHANNEL = 0x03"
| "reg_addr SYSCONFIG1 = 0x04"
| "reg_addr SYSCONFIG2 = 0x05"
| "reg_addr SYSCONFIG3 = 0x06"
| "reg_addr TEST1 = 0x07"
| "reg_addr TEST2 = 0x08"
| "reg_addr BOOTCONFIG = 0x09"

text \<open>A bitfield: its register, the offset of its lowest bit and its width.\<close>

datatype field = Field reg nat nat

fun f_reg :: "field \<Rightarrow> reg" where "f_reg (Field r off w) = r"
fun f_off :: "field \<Rightarrow> nat" where "f_off (Field r off w) = off"
fun f_width :: "field \<Rightarrow> nat" where "f_width (Field r off w) = w"

text \<open>\<^verbatim>\<open>POWERCFG_t\<close>: ENABLE:1, :5, DISABLE:1, :1, SEEK:1, SEEKUP:1, SKMODE:1, RDSM:1,
  :1, MONO:1, DMUTE:1, DSMUTE:1.\<close>

definition ENABLE :: field where "ENABLE = Field POWERCFG 0 1"
definition DISABLE :: field where "DISABLE = Field POWERCFG 6 1"
definition SEEK :: field where "SEEK = Field POWERCFG 8 1"
definition SEEKUP :: field where "SEEKUP = Field POWERCFG 9 1"
definition SKMODE :: field where "SKMODE = Field POWERCFG 10 1"
definition RDSM :: field where "RDSM = Field POWERCFG 11 1"
definition MONO :: field where "MONO = Field POWERCFG 13 1"
definition DMUTE :: field where "DMUTE = Field POWERCFG 14 1"
definition DSMUTE :: field where "DSMUTE = Field POWERCFG 15 1"

text \<open>\<^verbatim>\<open>CHANNEL_t\<close>: CHAN:10, :5, TUNE:1.\<close>

definition CHAN :: field where "CHAN = Field CHANNEL 0 10"
definition TUNE :: field where "TUNE = Field CHANNEL 15 1"

text \<open>\<^verbatim>\<open>SYSCONFIG1_t\<close>: GPIO1:2, GPIO2:2, GPIO3:2, BLNDADJ:2, :2, AGCD:1, DE:1, RDS:1,
  :1, STCIEN:1, RDSIEN:1.\<close>

definition F_GPIO1 :: field where "F_GPIO1 = Field SYSCONFIG1 0 2"
definition F_GPIO2 :: field where "F_GPIO2 = Field SYSCONFIG1 2 2"
definition F_GPIO3 :: field where "F_GPIO3 = Field SYSCONFIG1 4 2"
definition BLNDADJ :: field where "BLNDADJ = Field SYSCONFIG1 6 2"
definition AGCD :: field where "AGCD = Field SYSCONFIG1 10 1"
definition DE :: field where "DE = Field SYSCONFIG1 11 1"
definition RDS :: field where "RDS = Field SYSCONFIG1 12 1"
definition STCIEN :: field where "STCIEN = Field SYSCONFIG1 14 1"
definition RDSIEN :: field where "RDSIEN = Field SYSCONFIG1 15 1"

text \<open>\<^verbatim>\<open>SYSCONFIG2_t\<close>: VOLUME:4, SPACE:2, BAND:2, SEEKTH:8.\<close>

definition VOLUME :: field where "VOLUME = Field SYSCONFIG2 0 4"
definition SPACE :: field where "SPACE = Field SYSCONFIG2 4 2"
definition BAND :: field where "BAND = Field SYSCONFIG2 6 2"
definition SEEKTH :: field where "SEEKTH = Field SYSCONFIG2 8 8"

text \<open>\<^verbatim>\<open>SYSCONFIG3_t\<close>: SKCNT:4, SKSNR:4, VOLEXT:1, :3, SMUTEA:2, SMUTER:2.\<close>

definition SKCNT :: field where "SKCNT = Field SYSCONFIG3 0 4"
definition SKSNR :: field where "SKSNR = Field SYSCONFIG3 4 4"
definition VOLEXT :: field where "VOLEXT = Field SYSCONFIG3 8 1"
definition SMUTEA :: field where "SMUTEA = Field SYSCONFIG3 12 2"
definition SMUTER :: field where "SMUTER = Field SYSCONFIG3 14 2"

text \<open>\<^verbatim>\<open>TEST1_t\<close>: :14, AHIZEN:1, XOSCEN:1.\<close>

definition AHIZEN :: field where "AHIZEN = Field TEST1 14 1"
definition XOSCEN :: field where "XOSCEN = Field TEST1 15 1"

text \<open>\<^verbatim>\<open>STATUSRSSI_t\<close>: RSSI:8, ST:1, BLERA:2, RDSS:1, AFCRL:1, SFBL:1, STC:1, RDSR:1.\<close>

definition RSSI :: field where "RSSI = Field STATUSRSSI 0 8"
definition ST :: field where "ST = Field STATUSRSSI 8 1"
definition SFBL :: field where "SFBL = Field STATUSRSSI 13 1"
definition STC :: field where "STC = Field STATUSRSSI 14 1"

text \<open>\<^verbatim>\<open>READCHAN_t\<close>: READCHAN:10, BLERD:2, BLERC:2, BLERB:2.\<close>

definition F_READCHAN :: field where "F_READCHAN = Field READCHAN 0 10"

text \<open>Reading a bitfield gives its unsigned value; assigning an integer to a bitfield of
  width \<open>w\<close> keeps the low \<open>w\<close> bits of the integer and leaves every other bit of the
  word as it was. A \<^verbatim>\<open>bool\<close> is assigned as 0 or 1.\<close>

definition get_bits :: "nat \<Rightarrow> nat \<Rightarrow> u16 \<Rightarrow> u16" where
  "get_bits off w x = take_bit w (drop_bit off x)"

definition set_bits :: "nat \<Rightarrow> nat \<Rightarrow> int \<Rightarrow> u16 \<Rightarrow> u16" where
  "set_bits off w v x =
     (x AND NOT (push_bit off (mask w))) OR push_bit off (take_bit w (word_of_int v))"

definition of_bool_int :: "bool \<Rightarrow> int" where
  "of_bool_int b = (if b then 1 else 0)"

subsection \<open>The two-wire bus and the device behind it\<close>

text \<open>
  The Arduino \<^verbatim>\<open>Wire\<close> object and the chip are not part of the repository. \<^verbatim>\<open>Wire\<close> is
  modelled by its two buffers: \<^verbatim>\<open>requestFrom\<close> runs one block read and fills the
  receive buffer with at most the requested number of bytes, \<^verbatim>\<open>read\<close> takes the next
  byte (or returns -1 when none is left), \<^verbatim>\<open>beginTransmission\<close> empties the transmit
  buffer, \<^verbatim>\<open>write\<close> appends one byte, \<^verbatim>\<open>endTransmission\<close> sends the buffer as one
  block write and returns the status. The driver queues 12 bytes at most, below the
  buffer size of every Arduino core.

  The device is any deterministic machine: a state of type \<open>'d\<close> and two functions
  answering a block read and a block write. Every bus transaction, pin operation and
  delay is appended to a trace, so that the order of the driver's effects can be stated.
\<close>

record 'd device =
  dev_read :: "'d \<Rightarrow> nat \<Rightarrow> u8 list \<times> 'd"
  dev_write :: "'d \<Rightarrow> u8 list \<Rightarrow> u8 \<times> 'd"

datatype pin_mode = OUTPUT | INPUT_PULLUP

datatype event =
    PinMode int pin_mode
  | DigitalWrite int bool
  | Delay nat
  | WireBegin int int
  | BusRead int nat "u8 list"
  | BusWrite int "u8 list"

record 'd Si4703 =
  m_rstPin :: int
  m_sdioPin :: int
  m_sclkPin :: int
  m_intPin :: int
  m_band :: int
  m_space :: int
  m_de :: int
  m_bandStart :: int
  m_bandEnd :: int
  m_bandSpacing :: int
  m_skmode :: int
  m_seekth :: int
  m_skcnt :: int
  m_sksnr :: int
  m_agcd :: int
  shadow :: "nat \<Rightarrow> u16"
  rxBuffer :: "u8 list"
  txBuffer :: "u8 list"
  dev :: 'd
  trace :: "event list"

definition Wire_requestFrom :: "'d device \<Rightarrow> int \<Rightarrow> nat \<Rightarrow> 'd Si4703 \<Rightarrow> 'd Si4703" where
  "Wire_requestFrom W addr n s =
     (let (bs, d) = dev_read W (dev s) n; got = take n bs
      in s\<lparr>rxBuffer := got, dev := d, trace := trace s @ [BusRead addr n got]\<rparr>)"

definition Wire_read :: "'d Si4703 \<Rightarrow> int \<times> 'd Si4703" where
  "Wire_read s =
     (case rxBuffer s of
        [] \<Rightarrow> (- 1, s)
      | b # bs \<Rightarrow> (uint b, s\<lparr>rxBuffer := bs\<rparr>))"

definition Wire_beginTransmission :: "int \<Rightarrow> 'd Si4703 \<Rightarrow> 'd Si4703" where
  "Wire_beginTransmission addr s = s\<lparr>txBuffer := []\<rparr>"

definition Wire_write :: "int \<Rightarrow> 'd Si4703 \<Rightarrow> 'd Si4703" where
  "Wire_write v s = s\<lparr>txBuffer := txBuffer s @ [word_of_int v]\<rparr>"

definition Wire_endTransmission :: "'d device \<Rightarrow> int \<Rightarrow> 'd Si4703 \<Rightarrow> u8 \<times> 'd Si4703" where
  "Wire_endTransmission W addr s =
     (let (status, d) = dev_write W (dev s) (txBuffer s)
      in (status, s\<lparr>txBuffer := [], dev := d, trace := trace s @ [BusWrite addr (txBuffer s)]\<rparr>))"

definition delay :: "nat \<Rightarrow> 'd Si4703 \<Rightarrow> 'd Si4703" where
  "delay ms s = s\<lparr>trace := trace s @ [Delay ms]\<rparr>"

definition pinMode :: "int \<Rightarrow> pin_mode \<Rightarrow> 'd Si4703 \<Rightarrow> 'd Si4703" where
  "pinMode pin m s = s\<lparr>trace := trace s @ [PinMode pin m]\<rparr>"

definition digitalWrite :: "int \<Rightarrow> bool \<Rightarrow> 'd Si4703 \<Rightarrow> 'd Si4703" where
  "digitalWrite pin level s = s\<lparr>trace := trace s @ [DigitalWrite pin level]\<rparr>"

section \<open>Register shadow I/O\<close>

text \<open>Access to \<^verbatim>\<open>shadow.reg.R.bits.F\<close>.\<close>

definition rd_field :: "field \<Rightarrow> 'd Si4703 \<Rightarrow> int" where
  "rd_field f s = uint (get_bits (f_off f) (f_width f) (shadow s (reg_index (f_reg f))))"

definition wr_field :: "field \<Rightarrow> int \<Rightarrow> 'd Si4703 \<Rightarrow> 'd Si4703" where
  "wr_field f v s =
     s\<lparr>shadow := (shadow s)(reg_index (f_reg f) :=
          set_bits (f_off f) (f_width f) v (shadow s (reg_index (f_reg f))))\<rparr>"

text \<open>\<^verbatim>\<open>getShadow\<close>: one request of 32 bytes, then sixteen times
  \<^verbatim>\<open>shadow.word[i] = (Wire.read() << 8) | Wire.read()\<close>, the left operand read first.
  The \<^verbatim>\<open>int\<close> value is converted to \<^verbatim>\<open>uint16_t\<close>, that is, taken modulo 65536.\<close>

definition getShadow_step :: "nat \<Rightarrow> 'd Si4703 \<Rightarrow> 'd Si4703" where
  "getShadow_step i s =
     (let (hi, s1) = Wire_read s;
          (lo, s2) = Wire_read s1
      in s2\<lparr>shadow := (shadow s2)(i := word_of_int (push_bit 8 hi OR lo))\<rparr>)"

definition getShadow :: "'d device \<Rightarrow> 'd Si4703 \<Rightarrow> 'd Si4703" where
  "getShadow W s = fold getShadow_step [0..<16] (Wire_requestFrom W I2C_ADDR 32 s)"

text \<open>\<^verbatim>\<open>putShadow\<close>: for i = 8 .. 13, \<^verbatim>\<open>Wire.write(shadow.word[i] >> 8)\<close> and
  \<^verbatim>\<open>Wire.write(shadow.word[i] & 0x00FF)\<close>, between \<^verbatim>\<open>beginTransmission\<close> and
  \<^verbatim>\<open>endTransmission\<close>, whose status is the result.\<close>

definition putShadow_step :: "nat \<Rightarrow> 'd Si4703 \<Rightarrow> 'd Si4703" where
  "putShadow_step i s =
     (let s1 = Wire_write (uint (drop_bit 8 (shadow s i))) s
      in Wire_write (uint (shadow s1 i AND 0x00FF)) s1)"

definition putShadow :: "'d device \<Rightarrow> 'd Si4703 \<Rightarrow> u8 \<times> 'd Si4703" where
  "putShadow W s =
     Wire_endTransmission W I2C_ADDR
       (fold putShadow_step [8..<14] (Wire_beginTransmission I2C_ADDR s))"


section \<open>Driver operations\<close>

subsection \<open>Construction, bus set-up, power-up and start\<close>

text \<open>The constructor stores its twelve arguments. The members \<^verbatim>\<open>_bandStart\<close>,
  \<^verbatim>\<open>_bandEnd\<close>, \<^verbatim>\<open>_bandSpacing\<close> and the shadow are not initialised: they keep what the
  object's memory held, here the fields of \<open>raw\<close>.\<close>

definition Si4703_new ::
  "'d Si4703 \<Rightarrow> int \<Rightarrow> int \<Rightarrow> int \<Rightarrow> int \<Rightarrow> int \<Rightarrow> int \<Rightarrow> int \<Rightarrow> int \<Rightarrow> int \<Rightarrow> int \<Rightarrow> int \<Rightarrow> int
    \<Rightarrow> 'd Si4703" where
  "Si4703_new raw rstPin sdioPin sclkPin intPin band space de skmode seekth skcnt sksnr agcd =
     raw\<lparr>m_rstPin := rstPin, m_sdioPin := sdioPin, m_sclkPin := sclkPin, m_intPin := intPin,
         m_band := band, m_space := space, m_de := de,
         m_skmode := skmode, m_seekth := seekth, m_skcnt := skcnt, m_sksnr := sksnr,
         m_agcd := agcd\<rparr>"

text \<open>\<^verbatim>\<open>bus2Wire\<close>, in the ESP32 build this version of the library targets
  (\<^verbatim>\<open>Wire.begin(_sdioPin, _sclkPin)\<close>).\<close>

definition bus2Wire :: "'d Si4703 \<Rightarrow> 'd Si4703" where
  "bus2Wire s =
     (let s1 = pinMode (m_rstPin s) OUTPUT s;
          s2 = pinMode (m_sdioPin s1) OUTPUT s1;
          s3 = digitalWrite (m_rstPin s2) False s2;
          s4 = digitalWrite (m_sdioPin s3) False s3;
          s5 = delay 1 s4;
          s6 = digitalWrite (m_rstPin s5) True s5;
          s7 = delay 1 s6;
          s8 = pinMode (m_sdioPin s7) INPUT_PULLUP s7
      in s8\<lparr>trace := trace s8 @ [WireBegin (m_sdioPin s8) (m_sclkPin s8)]\<rparr>)"

definition powerUp :: "'d device \<Rightarrow> 'd Si4703 \<Rightarrow> 'd Si4703" where
  "powerUp W s =
     (let s1 = getShadow W s;
          s2 = wr_field XOSCEN 1 s1;
          s3 = snd (putShadow W s2);
          s4 = delay 500 s3;
          s5 = getShadow W s4;
          s6 = wr_field ENABLE 1 s5;
          s7 = wr_field DISABLE 0 s6;
          s8 = wr_field DMUTE 1 s7;
          s9 = snd (putShadow W s8)
      in delay 110 s9)"

text \<open>\<^verbatim>\<open>setRegion\<close>: two \<^verbatim>\<open>switch\<close> statements, each with an empty \<^verbatim>\<open>default\<close>.\<close>

definition setRegion :: "int \<Rightarrow> int \<Rightarrow> int \<Rightarrow> 'd Si4703 \<Rightarrow> 'd Si4703" where
  "setRegion band space de s =
     (let s1 =
            (if band = BAND_US_EU then s\<lparr>m_bandStart := 8750, m_bandEnd := 10800\<rparr>
             else if band = BAND_JPW then s\<lparr>m_bandStart := 7600, m_bandEnd := 10800\<rparr>
             else if band = BAND_JP then s\<lparr>m_bandStart := 7600, m_bandEnd := 9000\<rparr>
             else s)
      in (if space = SPACE_100KHz then s1\<lparr>m_bandSpacing := 10\<rparr>
          else if space = SPACE_200KHz then s1\<lparr>m_bandSpacing := 20\<rparr>
          else if space = SPACE_50KHz then s1\<lparr>m_bandSpacing := 5\<rparr>
          else s1))"

definition start_config :: "'d Si4703 \<Rightarrow> 'd Si4703" where
  "start_config s =
     (let s = wr_field SPACE (m_space s) s;
          s = wr_field BAND (m_band s) s;
          s = wr_field DE (m_de s) s;
          s = wr_field STCIEN 0 s;
          s = wr_field SEEK 0 s;
          s = wr_field SEEKUP 1 s;
          s = wr_field SKMODE (m_skmode s) s;
          s = wr_field SEEKTH (m_seekth s) s;
          s = wr_field SKCNT (m_skcnt s) s;
          s = wr_field SKSNR (m_sksnr s) s;
          s = wr_field AGCD (m_agcd s) s;
          s = wr_field RDSIEN 0 s;
          s = wr_field RDSM 0 s;
          s = wr_field RDS 1 s;
          s = wr_field AHIZEN 0 s;
          s = wr_field MONO 0 s;
          s = wr_field BLNDADJ BLA_31_49 s;
          s = wr_field VOLUME 0 s;
          s = wr_field VOLEXT 0 s;
          s = wr_field DSMUTE 1 s;
          s = wr_field SMUTEA SMA_16dB s;
          s = wr_field SMUTER SMRR_Fastest s;
          s = wr_field F_GPIO1 GPIO_Z s;
          s = wr_field F_GPIO2 GPIO_Z s
      in wr_field F_GPIO3 GPIO_Z s)"

text \<open>\<^verbatim>\<open>start\<close>: \<open>start_config\<close> is the run of bitfield assignments between
  \<^verbatim>\<open>setRegion\<close> and the final \<^verbatim>\<open>putShadow\<close>, in source order.\<close>

definition start :: "'d device \<Rightarrow> 'd Si4703 \<Rightarrow> 'd Si4703" where
  "start W s =
     (let s1 = bus2Wire s;
          s2 = powerUp W s1;
          s3 = getShadow W s2;
          s4 = setRegion (m_band s3) (m_space s3) (m_de s3) s3;
          s5 = start_config s4
      in snd (putShadow W s5))"

definition getBandStart :: "'d Si4703 \<Rightarrow> int" where "getBandStart s = m_bandStart s"
definition getBandEnd :: "'d Si4703 \<Rightarrow> int" where "getBandEnd s = m_bandEnd s"
definition getBandSpace :: "'d Si4703 \<Rightarrow> int" where "getBandSpace s = m_bandSpacing s"

subsection \<open>Mute, volume and GPIO\<close>

definition setMute :: "'d device \<Rightarrow> bool \<Rightarrow> 'd Si4703 \<Rightarrow> 'd Si4703" where
  "setMute W en s =
     (let s1 = getShadow W s;
          s2 = wr_field DMUTE (of_bool_int en) s1
      in snd (putShadow W s2))"

definition getMute :: "'d device \<Rightarrow> 'd Si4703 \<Rightarrow> bool \<times> 'd Si4703" where
  "getMute W s = (let s1 = getShadow W s in (rd_field DMUTE s1 \<noteq> 0, s1))"

definition getVolume :: "'d device \<Rightarrow> 'd Si4703 \<Rightarrow> int \<times> 'd Si4703" where
  "getVolume W s = (let s1 = getShadow W s in (rd_field VOLUME s1, s1))"

definition setVolume :: "'d device \<Rightarrow> int \<Rightarrow> 'd Si4703 \<Rightarrow> int \<times> 'd Si4703" where
  "setVolume W volume s =
     (let s1 = getShadow W s;
          v1 = (if volume < 0 then 0 else volume);
          v2 = (if v1 > 15 then 15 else v1);
          s2 = wr_field VOLUME v2 s1;
          s3 = snd (putShadow W s2)
      in getVolume W s3)"

definition incVolume :: "'d device \<Rightarrow> 'd Si4703 \<Rightarrow> int \<times> 'd Si4703" where
  "incVolume W s = (let (v, s1) = getVolume W s in setVolume W (v + 1) s1)"

definition decVolume :: "'d device \<Rightarrow> 'd Si4703 \<Rightarrow> int \<times> 'd Si4703" where
  "decVolume W s = (let (v, s1) = getVolume W s in setVolume W (v - 1) s1)"

definition writeGPIO :: "'d device \<Rightarrow> int \<Rightarrow> int \<Rightarrow> 'd Si4703 \<Rightarrow> 'd Si4703" where
  "writeGPIO W GPIO val s =
     (let s1 = getShadow W s;
          s2 = (if GPIO = GPIO1 then wr_field F_GPIO1 val s1
                else if GPIO = GPIO2 then wr_field F_GPIO2 val s1
                else if GPIO = GPIO3 then wr_field F_GPIO3 val s1
                else s1)
      in snd (putShadow W s2))"

subsection \<open>Tuning and seeking\<close>

text \<open>
  \<^verbatim>\<open>setChannel\<close> and \<^verbatim>\<open>seek\<close> poll the STC bit in loops without a bound. A loop is a
  recursion on a number of polls allowed: \<open>Done\<close> is the loop's exit, \<open>Spinning\<close> is
  the state reached when the allowance is used up with the loop still running, so the
  trace of a run that never ends is visible at every length. \<open>poll_STC n W want body\<close>
  is \<^verbatim>\<open>while (getSTC() != want) body\<close>: \<open>want = True\<close> for \<^verbatim>\<open>while (!getSTC())\<close>,
  \<open>want = False\<close> for \<^verbatim>\<open>while (getSTC())\<close>.

  The division \<^verbatim>\<open>(freq - _bandStart) / _bandSpacing\<close> truncates towards zero
  (\<open>sdiv\<close>); with \<^verbatim>\<open>_bandSpacing\<close> = 0 it is undefined behaviour, the outcome
  \<open>DivideByZero\<close>.
\<close>

datatype ('a, 'd) outcome = Done 'a | Spinning "'d Si4703" | DivideByZero "'d Si4703"

definition getSTC :: "'d device \<Rightarrow> 'd Si4703 \<Rightarrow> bool \<times> 'd Si4703" where
  "getSTC W s = (let s1 = getShadow W s in (rd_field STC s1 \<noteq> 0, s1))"

primrec poll_STC ::
  "nat \<Rightarrow> 'd device \<Rightarrow> bool \<Rightarrow> ('d Si4703 \<Rightarrow> 'd Si4703) \<Rightarrow> 'd Si4703 \<Rightarrow> ('d Si4703, 'd) outcome" where
  "poll_STC 0 W want body s = Spinning s"
| "poll_STC (Suc n) W want body s =
     (let (stc, s1) = getSTC W s
      in if stc = want then Done s1 else poll_STC n W want body (body s1))"

definition getChannel :: "'d device \<Rightarrow> 'd Si4703 \<Rightarrow> int \<times> 'd Si4703" where
  "getChannel W s =
     (let s1 = getShadow W s
      in (m_bandSpacing s1 * rd_field F_READCHAN s1 + m_bandStart s1, s1))"

definition setChannel ::
  "nat \<Rightarrow> 'd device \<Rightarrow> int \<Rightarrow> 'd Si4703 \<Rightarrow> (int \<times> 'd Si4703, 'd) outcome" where
  "setChannel n W freq s =
     (let f1 = (if freq > m_bandEnd s then m_bandEnd s else freq);
          f2 = (if f1 < m_bandStart s then m_bandStart s else f1);
          s1 = getShadow W s
      in if m_bandSpacing s1 = 0 then DivideByZero s1
         else
           (let s2 = wr_field CHAN ((f2 - m_bandStart s1) sdiv m_bandSpacing s1) s1;
                s3 = wr_field TUNE 1 s2;
                s4 = snd (putShadow W s3)
            in case (if rd_field STCIEN s4 = 0 then poll_STC n W True id s4 else Done s4) of
                 Spinning t \<Rightarrow> Spinning t
               | DivideByZero t \<Rightarrow> DivideByZero t
               | Done s5 \<Rightarrow>
                   (let s6 = getShadow W s5;
                        s7 = wr_field TUNE 0 s6;
                        s8 = snd (putShadow W s7)
                    in case poll_STC n W False id s8 of
                         Spinning t \<Rightarrow> Spinning t
                       | DivideByZero t \<Rightarrow> DivideByZero t
                       | Done s9 \<Rightarrow> Done (getChannel W s9))))"

definition seek ::
  "nat \<Rightarrow> 'd device \<Rightarrow> u8 \<Rightarrow> 'd Si4703 \<Rightarrow> (int \<times> 'd Si4703, 'd) outcome" where
  "seek n W seekDirection s =
     (let s1 = getShadow W s;
          s2 = wr_field SEEKUP (uint seekDirection) s1;
          s3 = wr_field SEEK 1 s2;
          s4 = snd (putShadow W s3)
      in case (if rd_field STCIEN s4 = 0 then poll_STC n W True (delay 40) s4 else Done s4) of
           Spinning t \<Rightarrow> Spinning t
         | DivideByZero t \<Rightarrow> DivideByZero t
         | Done s5 \<Rightarrow>
             (let s6 = getShadow W s5;
                  sfbl = (rd_field SFBL s6 \<noteq> 0);
                  s7 = wr_field SEEK 0 s6;
                  s8 = snd (putShadow W s7)
              in case poll_STC n W False id s8 of
                   Spinning t \<Rightarrow> Spinning t
                 | DivideByZero t \<Rightarrow> DivideByZero t
                 | Done s9 \<Rightarrow> if sfbl then Done (0, s9) else Done (getChannel W s9)))"

definition seekUp :: "nat \<Rightarrow> 'd device \<Rightarrow> 'd Si4703 \<Rightarrow> (int \<times> 'd Si4703, 'd) outcome" where
  "seekUp n W s = seek n W SEEK_UP s"

definition seekDown :: "nat \<Rightarrow> 'd device \<Rightarrow> 'd Si4703 \<Rightarrow> (int \<times> 'd Si4703, 'd) outcome" where
  "seekDown n W s = seek n W SEEK_DOWN s"


section \<open>A model of the chip\<close>

text \<open>
  The claims about what the driver reads back after a write need a device. This is the
  Si4703 as the driver's comments and the data sheet describe it, reduced to what the
  driver observes:
  \<^item> a block read returns the registers high byte first, starting at 0x0A and wrapping
    from 0x0F to 0x00 (\<open>read_order\<close>);
  \<^item> a block write stores its words into the registers 0x02, 0x03, ... up to 0x07;
  \<^item> a tune command (TUNE set) or a seek command (SEEK set) completes some reads after
    the write (\<open>latency\<close>): STC is set, READCHAN takes the channel written (tune) or the
    channel the seek stopped at (\<open>seek_chan\<close>), and a seek sets SFBL when it failed
    (\<open>seek_fail\<close>);
  \<^item> once TUNE and SEEK are both low, STC and SFBL are cleared, again \<open>latency\<close>
    reads after the write.
  The latency and the outcome of a seek are parameters of the chip's state.
\<close>

record chip =
  regs :: "nat \<Rightarrow> u16"
  countdown :: nat
  latency :: nat
  seek_fail :: bool
  seek_chan :: int

definition read_order :: "nat list" where
  "read_order = [0x0A..<0x10] @ [0x00..<0x0A]"

definition hi_byte :: "u16 \<Rightarrow> u8" where "hi_byte w = ucast (drop_bit 8 w)"
definition lo_byte :: "u16 \<Rightarrow> u8" where "lo_byte w = ucast w"

definition be16 :: "u8 \<Rightarrow> u8 \<Rightarrow> u16" where
  "be16 h l = push_bit 8 (ucast h) OR ucast l"

definition chip_bytes :: "chip \<Rightarrow> u8 list" where
  "chip_bytes c = concat (map (\<lambda>a. [hi_byte (regs c a), lo_byte (regs c a)]) read_order)"

definition chip_settle :: "chip \<Rightarrow> chip" where
  "chip_settle c =
     (let stc = bit (regs c 0x0A) 14;
          tune = bit (regs c 0x03) 15;
          sk = bit (regs c 0x02) 8
      in if \<not> stc \<and> tune then
           c\<lparr>regs := (regs c)
               (0x0A := set_bits 14 1 1 (regs c 0x0A),
                0x0B := set_bits 0 10 (uint (get_bits 0 10 (regs c 0x03))) (regs c 0x0B))\<rparr>
         else if \<not> stc \<and> sk then
           c\<lparr>regs := (regs c)
               (0x0A := set_bits 13 1 (of_bool_int (seek_fail c)) (set_bits 14 1 1 (regs c 0x0A)),
                0x0B := set_bits 0 10 (seek_chan c) (regs c 0x0B))\<rparr>
         else if stc \<and> \<not> tune \<and> \<not> sk then
           c\<lparr>regs := (regs c)(0x0A := set_bits 13 1 0 (set_bits 14 1 0 (regs c 0x0A)))\<rparr>
         else c)"

definition chip_tick :: "chip \<Rightarrow> chip" where
  "chip_tick c = (if countdown c > 0 then c\<lparr>countdown := countdown c - 1\<rparr> else chip_settle c)"

definition chip_read :: "chip \<Rightarrow> nat \<Rightarrow> u8 list \<times> chip" where
  "chip_read c n = (let c1 = chip_tick c in (take n (chip_bytes c1), c1))"

definition chip_store :: "(nat \<Rightarrow> u16) \<Rightarrow> u8 list \<Rightarrow> nat \<Rightarrow> u16" where
  "chip_store rs bs a =
     (if 2 \<le> a \<and> a < 8 \<and> 2 * (a - 2) + 1 < length bs
      then be16 (bs ! (2 * (a - 2))) (bs ! (2 * (a - 2) + 1))
      else rs a)"

definition chip_write :: "chip \<Rightarrow> u8 list \<Rightarrow> u8 \<times> chip" where
  "chip_write c bs = (0, c\<lparr>regs := chip_store (regs c) bs, countdown := latency c\<rparr>)"

definition Si4703_chip :: "chip device" where
  "Si4703_chip = \<lparr>dev_read = chip_read, dev_write = chip_write\<rparr>"

text \<open>No command in flight: STC, TUNE and SEEK are low. \<open>chip_polling\<close>: the STC
  interrupt is disabled (STCIEN low, as \<^verbatim>\<open>start\<close> sets it), so the driver polls.\<close>

definition chip_idle :: "chip \<Rightarrow> bool" where
  "chip_idle c = (\<not> bit (regs c 0x0A) 14 \<and> \<not> bit (regs c 0x03) 15 \<and> \<not> bit (regs c 0x02) 8)"

definition chip_polling :: "chip \<Rightarrow> bool" where
  "chip_polling c = (\<not> bit (regs c 0x04) 14)"

text \<open>A value every C++ \<^verbatim>\<open>int\<close> can hold: the narrowest \<^verbatim>\<open>int\<close> of the Arduino cores
  has 16 bits (AVR), the ESP32's has 32.\<close>

definition fits_int :: "int \<Rightarrow> bool" where
  "fits_int x = (- 32768 \<le> x \<and> x \<le> 32767)"

text \<open>The band fields hold a band whose channel numbers fit the 10-bit channel field
  and whose limits, width and spacing fit an \<^verbatim>\<open>int\<close>, so that \<^verbatim>\<open>setChannel\<close> forms no
  value outside the \<^verbatim>\<open>int\<close> range. \<open>readback_ok\<close>: the frequency of every 10-bit
  channel, as \<^verbatim>\<open>getChannel\<close> computes it, fits an \<^verbatim>\<open>int\<close>. The three band tables of
  \<^verbatim>\<open>setRegion\<close> with each of its three spacings satisfy both.\<close>

definition band_ok :: "'d Si4703 \<Rightarrow> bool" where
  "band_ok s =
     (m_bandStart s \<le> m_bandEnd s \<and> 0 < m_bandSpacing s \<and>
      (m_bandEnd s - m_bandStart s) div m_bandSpacing s < 1024 \<and>
      fits_int (m_bandStart s) \<and> fits_int (m_bandEnd s) \<and>
      fits_int (m_bandEnd s - m_bandStart s) \<and> fits_int (m_bandSpacing s))"

definition readback_ok :: "'d Si4703 \<Rightarrow> bool" where
  "readback_ok s =
     (0 \<le> m_bandSpacing s \<and> fits_int (m_bandSpacing s) \<and> fits_int (m_bandStart s) \<and>
      fits_int (m_bandSpacing s * 1023) \<and>
      fits_int (m_bandSpacing s * 1023 + m_bandStart s))"


section \<open>Auxiliary notions for the statements\<close>

text \<open>The twelve bytes of the shadow words 8 to 13, each word high byte first.\<close>

definition control_bytes :: "(nat \<Rightarrow> u16) \<Rightarrow> u8 list" where
  "control_bytes sh = concat (map (\<lambda>i. [hi_byte (sh i), lo_byte (sh i)]) [8..<14])"

text \<open>The band selectors and the band fields derived from them.\<close>

definition cfg :: "'d Si4703 \<Rightarrow> int \<times> int \<times> int \<times> int \<times> int \<times> int" where
  "cfg s = (m_band s, m_space s, m_de s, m_bandStart s, m_bandEnd s, m_bandSpacing s)"

text \<open>The shadow agrees with the chip's registers: index \<open>i\<close> holds the register at
  address \<open>(i + 10) mod 16\<close>.\<close>

definition synced :: "chip Si4703 \<Rightarrow> bool" where
  "synced s = list_all (\<lambda>i. shadow s i = regs (dev s) ((i + 10) mod 16)) [0..<16]"

text \<open>A bitfield as the chip holds it, at the register's device address.\<close>

definition chip_field :: "field \<Rightarrow> chip \<Rightarrow> int" where
  "chip_field f c = uint (get_bits (f_off f) (f_width f) (regs c (reg_addr (f_reg f))))"

subsection \<open>Reading the trace\<close>





subsection \<open>Concrete objects\<close>

text \<open>A chip after reset (all registers zero) that answers a command after two reads and
  whose next seek stops at channel 55; a chip whose register at address \<open>a\<close> holds
  \<open>257 * a\<close>, so that each byte of a block read names the register it comes from; and
  a chip whose next seek fails.\<close>

definition demo_chip :: chip where
  "demo_chip = \<lparr>regs = (\<lambda>a. 0), countdown = 0, latency = 2, seek_fail = False, seek_chan = 55\<rparr>"

definition tagged_chip :: chip where
  "tagged_chip = demo_chip\<lparr>regs := (\<lambda>a. 257 * of_nat a)\<rparr>"

definition failing_chip :: chip where
  "failing_chip = demo_chip\<lparr>seek_fail := True\<rparr>"

text \<open>The memory of a driver object before its constructor runs: the band fields hold
  leftovers (1234, 5678, 42).\<close>

definition raw_memory :: "chip Si4703" where
  "raw_memory =
     \<lparr>m_rstPin = 0, m_sdioPin = 0, m_sclkPin = 0, m_intPin = 0,
      m_band = 0, m_space = 0, m_de = 0,
      m_bandStart = 1234, m_bandEnd = 5678, m_bandSpacing = 42,
      m_skmode = 0, m_seekth = 0, m_skcnt = 0, m_sksnr = 0, m_agcd = 0,
      shadow = (\<lambda>i. 0), rxBuffer = [], txBuffer = [], dev = demo_chip, trace = []\<rparr>"

text \<open>The driver built with the header's default arguments (ESP32 pins), and one built
  with a band selector and a spacing selector outside the header's constants.\<close>

definition radio :: "chip Si4703" where
  "radio = Si4703_new raw_memory 9 7 8 0 BAND_US_EU SPACE_100KHz 0 1 24 15 15 0"

definition odd_radio :: "chip Si4703" where
  "odd_radio = Si4703_new raw_memory 9 7 8 0 3 7 0 1 24 15 15 0"

text \<open>The default driver once \<^verbatim>\<open>setRegion\<close> has filled its band fields
  (8750, 10800, 10).\<close>

definition tuned_radio :: "chip Si4703" where
  "tuned_radio = setRegion (m_band radio) (m_space radio) (m_de radio) radio"

text \<open>A driver attached to the tagged chip, the same after one refresh, and the default
  driver after the volume was set to 15.\<close>

definition tagged_radio :: "chip Si4703" where
  "tagged_radio = raw_memory\<lparr>dev := tagged_chip\<rparr>"

definition refreshed_radio :: "chip Si4703" where
  "refreshed_radio = getShadow Si4703_chip tagged_radio"

definition loud_radio :: "chip Si4703" where
  "loud_radio = snd (setVolume Si4703_chip 15 tuned_radio)"

text \<open>The default driver, band fields filled, attached to the chip whose seek fails.\<close>

definition dead_end_radio :: "chip Si4703" where
  "dead_end_radio = tuned_radio\<lparr>dev := failing_chip\<rparr>"

section \<open>Bytes, words and bitfields\<close>

lemma be16_split: "be16 (hi_byte w) (lo_byte w) = w"
  unfolding be16_def hi_byte_def lo_byte_def
  by (rule bit_word_eqI) (auto simp: bit_simps)

lemma join_read: "(word_of_int (push_bit 8 (uint (h::u8)) OR uint (l::u8)) :: u16) = be16 h l"
  unfolding be16_def
  by (rule bit_word_eqI) (auto simp: bit_simps)

lemma hi_write: "(ucast (drop_bit 8 (w::u16)) :: u8) = hi_byte w"
  by (simp add: hi_byte_def)

lemma lo_write: "(ucast ((w::u16) AND 0x00FF) :: u8) = lo_byte w"
proof -
  have m: "(0x00FF :: u16) = mask 8" by (simp add: mask_eq_exp_minus_1)
  show ?thesis unfolding lo_byte_def m by (rule bit_word_eqI) (auto simp: bit_simps)
qed

lemma get_set_bits_same:
  "off + w \<le> 16 \<Longrightarrow> get_bits off w (set_bits off w v x) = take_bit w (word_of_int v)"
  unfolding get_bits_def set_bits_def
  by (rule bit_word_eqI) (auto simp: bit_simps)

lemma bit_set_bits:
  "bit (set_bits off w v x) k \<longleftrightarrow>
     (if off \<le> k \<and> k < off + w then k < 16 \<and> bit v (k - off) else bit x k)"
  unfolding set_bits_def
  by (auto simp: bit_simps dest: bit_imp_le_length)

lemma bit_get_bits:
  "bit (get_bits off w x) k \<longleftrightarrow> k < w \<and> bit x (off + k)"
  unfolding get_bits_def
  by (auto simp: bit_simps)



lemma getShadow_fold:
  "rxBuffer s = bs \<Longrightarrow> 2 * n \<le> length bs \<Longrightarrow>
   fold getShadow_step [k..<k + n] s =
     s\<lparr>shadow := (\<lambda>i. if k \<le> i \<and> i < k + n then be16 (bs ! (2 * (i - k))) (bs ! (2 * (i - k) + 1))
                       else shadow s i),
       rxBuffer := drop (2 * n) bs\<rparr>"
proof (induction n arbitrary: k s bs)
  case 0
  have "(\<lambda>i. if k \<le> i \<and> i < k + 0 then be16 (bs ! (2 * (i - k))) (bs ! (2 * (i - k) + 1))
             else shadow s i) = shadow s"
    by (rule ext) auto
  with 0 show ?case by simp
next
  case (Suc n)
  from Suc.prems obtain h l rest where bs: "bs = h # l # rest"
    by (cases bs; cases "tl bs") auto
  let ?s1 = "getShadow_step k s"
  have s1: "?s1 = s\<lparr>rxBuffer := rest, shadow := (shadow s)(k := be16 h l)\<rparr>"
    using Suc.prems(1) bs by (simp add: getShadow_step_def Wire_read_def join_read)
  have up: "[k..<k + Suc n] = k # [Suc k..<Suc k + n]"
    by (simp add: upt_conv_Cons)
  have ih: "fold getShadow_step [Suc k..<Suc k + n] ?s1 =
     ?s1\<lparr>shadow := (\<lambda>i. if Suc k \<le> i \<and> i < Suc k + n
                          then be16 (rest ! (2 * (i - Suc k))) (rest ! (2 * (i - Suc k) + 1))
                          else shadow ?s1 i),
       rxBuffer := drop (2 * n) rest\<rparr>"
    by (rule Suc.IH) (use Suc.prems bs s1 in auto)
  have sh: "(\<lambda>i. if Suc k \<le> i \<and> i < Suc k + n
                          then be16 (rest ! (2 * (i - Suc k))) (rest ! (2 * (i - Suc k) + 1))
                          else shadow ?s1 i) =
            (\<lambda>i. if k \<le> i \<and> i < k + Suc n then be16 (bs ! (2 * (i - k))) (bs ! (2 * (i - k) + 1))
                       else shadow s i)"
  proof
    fix i
    show "(if Suc k \<le> i \<and> i < Suc k + n
                          then be16 (rest ! (2 * (i - Suc k))) (rest ! (2 * (i - Suc k) + 1))
                          else shadow ?s1 i) =
            (if k \<le> i \<and> i < k + Suc n then be16 (bs ! (2 * (i - k))) (bs ! (2 * (i - k) + 1))
                       else shadow s i)"
    proof (cases "i = k")
      case True
      then show ?thesis by (simp add: s1 bs)
    next
      case False
      show ?thesis
      proof (cases "Suc k \<le> i \<and> i < Suc k + n")
        case True
        then obtain j where j: "i = Suc k + j" by (metis le_Suc_ex)
        show ?thesis using True by (simp add: j bs)
      next
        case False
        with \<open>i \<noteq> k\<close> show ?thesis by (auto simp: s1)
      qed
    qed
  qed
  show ?case
    unfolding up fold_Cons comp_apply ih sh
    by (simp add: s1 bs)
qed

section \<open>What one refresh and one write-back do\<close>

lemma control_bytes_list:
  "control_bytes sh =
     [hi_byte (sh 8), lo_byte (sh 8), hi_byte (sh 9), lo_byte (sh 9),
      hi_byte (sh 10), lo_byte (sh 10), hi_byte (sh 11), lo_byte (sh 11),
      hi_byte (sh 12), lo_byte (sh 12), hi_byte (sh 13), lo_byte (sh 13)]"
  by (simp add: control_bytes_def upt_rec)

lemma getShadow_eq:
  assumes "dev_read W (dev s) 32 = (bs, d)" and "32 \<le> length bs"
  shows "getShadow W s =
     s\<lparr>shadow := (\<lambda>i. if i < 16 then be16 (bs ! (2 * i)) (bs ! (2 * i + 1)) else shadow s i),
       rxBuffer := [], dev := d,
       trace := trace s @ [BusRead I2C_ADDR 32 (take 32 bs)]\<rparr>"
proof -
  let ?s0 = "Wire_requestFrom W I2C_ADDR 32 s"
  have s0: "?s0 = s\<lparr>rxBuffer := take 32 bs, dev := d,
                     trace := trace s @ [BusRead I2C_ADDR 32 (take 32 bs)]\<rparr>"
    using assms by (simp add: Wire_requestFrom_def Let_def)
  have "fold getShadow_step [0..<0 + 16] ?s0 =
     ?s0\<lparr>shadow := (\<lambda>i. if 0 \<le> i \<and> i < 0 + 16
                         then be16 (take 32 bs ! (2 * (i - 0))) (take 32 bs ! (2 * (i - 0) + 1))
                         else shadow ?s0 i),
         rxBuffer := drop (2 * 16) (take 32 bs)\<rparr>"
    by (rule getShadow_fold) (use assms s0 in auto)
  moreover have "(\<lambda>i. if 0 \<le> i \<and> i < 0 + 16
                         then be16 (take 32 bs ! (2 * (i - 0))) (take 32 bs ! (2 * (i - 0) + 1))
                         else shadow ?s0 i) =
     (\<lambda>i. if i < 16 then be16 (bs ! (2 * i)) (bs ! (2 * i + 1)) else shadow s i)"
    by (rule ext) (auto simp: s0)
  ultimately show ?thesis
    unfolding getShadow_def by (simp add: s0)
qed

lemma putShadow_fold:
  "fold putShadow_step [k..<k + n] s =
     s\<lparr>txBuffer := txBuffer s @ concat (map (\<lambda>i. [hi_byte (shadow s i), lo_byte (shadow s i)]) [k..<k + n])\<rparr>"
proof (induction n arbitrary: k s)
  case 0
  then show ?case by simp
next
  case (Suc n)
  have up: "[k..<k + Suc n] = k # [Suc k..<Suc k + n]"
    by (simp add: upt_conv_Cons)
  have st: "putShadow_step k s = s\<lparr>txBuffer := txBuffer s @ [hi_byte (shadow s k), lo_byte (shadow s k)]\<rparr>"
    by (simp add: putShadow_step_def Wire_write_def Let_def hi_write lo_write)
  show ?case
    unfolding up fold_Cons comp_apply Suc.IH
    by (simp add: st)
qed

lemma putShadow_eq:
  "putShadow W s =
     (fst (dev_write W (dev s) (control_bytes (shadow s))),
      s\<lparr>txBuffer := [], dev := snd (dev_write W (dev s) (control_bytes (shadow s))),
        trace := trace s @ [BusWrite I2C_ADDR (control_bytes (shadow s))]\<rparr>)"
proof -
  have "fold putShadow_step [8..<8 + 6] (Wire_beginTransmission I2C_ADDR s) =
        s\<lparr>txBuffer := control_bytes (shadow s)\<rparr>"
    unfolding putShadow_fold by (simp add: Wire_beginTransmission_def control_bytes_def)
  then have "fold putShadow_step [8..<14] (Wire_beginTransmission I2C_ADDR s) =
        s\<lparr>txBuffer := control_bytes (shadow s)\<rparr>"
    by simp
  then show ?thesis
    unfolding putShadow_def
    by (simp add: Wire_endTransmission_def split_beta)
qed

lemma getShadow_step_shape:
  "\<exists>sh rx. getShadow_step i s = s\<lparr>shadow := sh, rxBuffer := rx\<rparr>"
proof (cases "rxBuffer s")
  case Nil
  then have "getShadow_step i s = s\<lparr>shadow := (shadow s)(i := word_of_int (push_bit 8 (- 1) OR (- 1))), rxBuffer := []\<rparr>"
    by (simp add: getShadow_step_def Wire_read_def)
  then show ?thesis by blast
next
  case (Cons h t)
  show ?thesis
  proof (cases t)
    case Nil
    with Cons have "getShadow_step i s = s\<lparr>shadow := (shadow s)(i := word_of_int (push_bit 8 (uint h) OR (- 1))), rxBuffer := []\<rparr>"
      by (simp add: getShadow_step_def Wire_read_def)
    then show ?thesis by blast
  next
    case (Cons l r)
    with \<open>rxBuffer s = h # t\<close> have "getShadow_step i s = s\<lparr>shadow := (shadow s)(i := word_of_int (push_bit 8 (uint h) OR uint l)), rxBuffer := r\<rparr>"
      by (simp add: getShadow_step_def Wire_read_def)
    then show ?thesis by blast
  qed
qed

lemma getShadow_fold_shape:
  "\<exists>sh rx. fold getShadow_step xs s = s\<lparr>shadow := sh, rxBuffer := rx\<rparr>"
proof (induction xs arbitrary: s)
  case Nil
  have "s = s\<lparr>shadow := shadow s, rxBuffer := rxBuffer s\<rparr>" by simp
  then show ?case by (metis fold_simps(1))
next
  case (Cons x xs)
  obtain sh rx where a: "getShadow_step x s = s\<lparr>shadow := sh, rxBuffer := rx\<rparr>"
    using getShadow_step_shape by blast
  obtain sh' rx' where b: "fold getShadow_step xs (getShadow_step x s) = (getShadow_step x s)\<lparr>shadow := sh', rxBuffer := rx'\<rparr>"
    using Cons.IH by blast
  have "fold getShadow_step (x # xs) s = s\<lparr>shadow := sh', rxBuffer := rx'\<rparr>"
    by (simp add: a b [unfolded a])
  then show ?case by blast
qed

lemma getShadow_shape:
  "\<exists>sh rx. getShadow W s =
     s\<lparr>shadow := sh, rxBuffer := rx, dev := snd (dev_read W (dev s) 32),
       trace := trace s @ [BusRead I2C_ADDR 32 (take 32 (fst (dev_read W (dev s) 32)))]\<rparr>"
proof -
  let ?s0 = "Wire_requestFrom W I2C_ADDR 32 s"
  obtain sh rx where "fold getShadow_step [0..<16] ?s0 = ?s0\<lparr>shadow := sh, rxBuffer := rx\<rparr>"
    using getShadow_fold_shape by blast
  then have "getShadow W s =
     s\<lparr>shadow := sh, rxBuffer := rx, dev := snd (dev_read W (dev s) 32),
       trace := trace s @ [BusRead I2C_ADDR 32 (take 32 (fst (dev_read W (dev s) 32)))]\<rparr>"
    by (simp add: getShadow_def Wire_requestFrom_def split_beta Let_def)
  then show ?thesis by blast
qed

lemma getShadow_trace:
  "trace (getShadow W s) = trace s @ [BusRead I2C_ADDR 32 (take 32 (fst (dev_read W (dev s) 32)))]"
  using getShadow_shape [of W s] by auto

lemma getShadow_dev: "dev (getShadow W s) = snd (dev_read W (dev s) 32)"
  using getShadow_shape [of W s] by auto

lemma getShadow_cfg: "cfg (getShadow W s) = cfg s"
  using getShadow_shape [of W s] by (auto simp: cfg_def)

lemma putShadow_shadow: "shadow (snd (putShadow W s)) = shadow s"
  by (simp add: putShadow_eq)

lemma putShadow_trace:
  "trace (snd (putShadow W s)) = trace s @ [BusWrite I2C_ADDR (control_bytes (shadow s))]"
  by (simp add: putShadow_eq)

lemma putShadow_cfg: "cfg (snd (putShadow W s)) = cfg s"
  by (simp add: putShadow_eq cfg_def)

lemma wr_field_cfg: "cfg (wr_field f v s) = cfg s"
  by (simp add: wr_field_def cfg_def)

lemma delay_cfg: "cfg (delay n s) = cfg s"
  by (simp add: delay_def cfg_def)

lemma bus2Wire_cfg: "cfg (bus2Wire s) = cfg s"
  by (simp add: bus2Wire_def cfg_def Let_def pinMode_def digitalWrite_def delay_def)

lemma powerUp_cfg: "cfg (powerUp W s) = cfg s"
  by (simp add: powerUp_def Let_def getShadow_cfg putShadow_cfg wr_field_cfg delay_cfg)

lemma start_config_cfg: "cfg (start_config s) = cfg s"
  by (simp add: start_config_def Let_def wr_field_cfg)

lemma start_cfg:
  "cfg (start W s) = cfg (setRegion (m_band s) (m_space s) (m_de s) s)"
proof -
  let ?s3 = "getShadow W (powerUp W (bus2Wire s))"
  have c3: "cfg ?s3 = cfg s"
    by (simp add: getShadow_cfg powerUp_cfg bus2Wire_cfg)
  have "cfg (start W s) = cfg (setRegion (m_band ?s3) (m_space ?s3) (m_de ?s3) ?s3)"
    by (simp add: start_def Let_def putShadow_cfg start_config_cfg)
  also have "\<dots> = cfg (setRegion (m_band s) (m_space s) (m_de s) s)"
    using c3 by (simp add: cfg_def setRegion_def Let_def)
  finally show ?thesis .
qed

section \<open>The chip model under the driver\<close>

lemma read_order_list: "read_order = [10, 11, 12, 13, 14, 15, 0, 1, 2, 3, 4, 5, 6, 7, 8, 9]"
  by (simp add: read_order_def upt_rec)

lemma lt16_cases: "(i::nat) < 16 \<Longrightarrow> i \<in> {0,1,2,3,4,5,6,7,8,9,10,11,12,13,14,15}"
  by (simp, arith)

lemma read_order_nth: "i < 16 \<Longrightarrow> read_order ! i = (i + 10) mod 16"
proof -
  assume "i < 16"
  then have "i \<in> {0,1,2,3,4,5,6,7,8,9,10,11,12,13,14,15}"
    by (rule lt16_cases)
  then show ?thesis unfolding read_order_list by auto
qed

lemma length_chip_bytes: "length (chip_bytes c) = 32"
  by (simp add: chip_bytes_def read_order_list)

lemma chip_bytes_nth:
  assumes "i < 16"
  shows "be16 (chip_bytes c ! (2 * i)) (chip_bytes c ! (2 * i + 1)) = regs c (read_order ! i)"
proof -
  from assms have "i \<in> {0,1,2,3,4,5,6,7,8,9,10,11,12,13,14,15}"
    by (rule lt16_cases)
  then show ?thesis
    unfolding chip_bytes_def read_order_list
    by (auto simp: be16_split)
qed

lemma getShadow_chip:
  "getShadow Si4703_chip s =
     s\<lparr>shadow := (\<lambda>i. if i < 16 then regs (chip_tick (dev s)) ((i + 10) mod 16) else shadow s i),
       rxBuffer := [], dev := chip_tick (dev s),
       trace := trace s @ [BusRead I2C_ADDR 32 (chip_bytes (chip_tick (dev s)))]\<rparr>"
proof -
  have rd: "dev_read Si4703_chip (dev s) 32 = (chip_bytes (chip_tick (dev s)), chip_tick (dev s))"
    by (simp add: Si4703_chip_def chip_read_def Let_def length_chip_bytes)
  have sh: "(\<lambda>i. if i < 16 then be16 (chip_bytes (chip_tick (dev s)) ! (2 * i))
                                  (chip_bytes (chip_tick (dev s)) ! (2 * i + 1)) else shadow s i) =
            (\<lambda>i. if i < 16 then regs (chip_tick (dev s)) ((i + 10) mod 16) else shadow s i)"
  proof (rule ext)
    fix i
    show "(if i < 16 then be16 (chip_bytes (chip_tick (dev s)) ! (2 * i))
                                  (chip_bytes (chip_tick (dev s)) ! (2 * i + 1)) else shadow s i) =
            (if i < 16 then regs (chip_tick (dev s)) ((i + 10) mod 16) else shadow s i)"
      using chip_bytes_nth [of i "chip_tick (dev s)"] read_order_nth [of i] by auto
  qed
  show ?thesis
    unfolding getShadow_eq [OF rd, unfolded length_chip_bytes, OF order_refl] sh
    by (simp add: length_chip_bytes)
qed

lemma chip_store_control:
  "chip_store rs (control_bytes sh) a = (if 2 \<le> a \<and> a < 8 then sh (a + 6) else rs a)"
proof (cases "2 \<le> a \<and> a < 8")
  case True
  then have "a \<in> {2, 3, 4, 5, 6, 7}" by auto
  then show ?thesis
    unfolding chip_store_def control_bytes_list
    by (auto simp: be16_split)
next
  case False
  then show ?thesis by (auto simp: chip_store_def)
qed

lemma putShadow_chip:
  "putShadow Si4703_chip s =
     (0, s\<lparr>txBuffer := [],
           dev := (dev s)\<lparr>regs := (\<lambda>a. if 2 \<le> a \<and> a < 8 then shadow s (a + 6) else regs (dev s) a),
                           countdown := latency (dev s)\<rparr>,
           trace := trace s @ [BusWrite I2C_ADDR (control_bytes (shadow s))]\<rparr>)"
proof -
  have "chip_store (regs (dev s)) (control_bytes (shadow s)) =
        (\<lambda>a. if 2 \<le> a \<and> a < 8 then shadow s (a + 6) else regs (dev s) a)"
    by (rule ext) (simp add: chip_store_control)
  then show ?thesis
    unfolding putShadow_eq by (simp add: Si4703_chip_def chip_write_def)
qed

lemma chip_tick_regs: "a \<noteq> 10 \<Longrightarrow> a \<noteq> 11 \<Longrightarrow> regs (chip_tick c) a = regs c a"
  by (simp add: chip_tick_def chip_settle_def Let_def)

lemma chip_tick_params:
  "latency (chip_tick c) = latency c" "seek_fail (chip_tick c) = seek_fail c"
  "seek_chan (chip_tick c) = seek_chan c"
  by (simp_all add: chip_tick_def chip_settle_def Let_def)


section \<open>Facts used by the claims\<close>

lemma uint_get_bits1: "uint (get_bits off 1 x) \<noteq> 0 \<longleftrightarrow> bit x off"
proof -
  have "get_bits off 1 x = 0 \<longleftrightarrow> (\<forall>k. \<not> bit (get_bits off 1 x) k)"
  proof
    assume "get_bits off 1 x = 0"
    then show "\<forall>k. \<not> bit (get_bits off 1 x) k" by simp
  next
    assume "\<forall>k. \<not> bit (get_bits off 1 x) k"
    then show "get_bits off 1 x = 0" by (intro bit_word_eqI) simp
  qed
  also have "\<dots> \<longleftrightarrow> \<not> bit x off"
    unfolding bit_get_bits by auto
  finally show ?thesis by (simp add: unsigned_eq_0_iff)
qed

lemma uint_get_set_bits:
  "off + w \<le> 16 \<Longrightarrow> uint (get_bits off w (set_bits off w v x)) = v mod 2 ^ w"
proof -
  assume le: "off + w \<le> 16"
  have "uint (take_bit w (word_of_int v :: u16)) = take_bit w (take_bit 16 v)"
    by (simp add: unsigned_take_bit_eq uint_word_of_int_eq)
  also have "\<dots> = take_bit w v"
    using le by (simp add: min_def)
  finally show ?thesis
    using le by (simp add: get_set_bits_same take_bit_eq_mod)
qed

lemma reg_members_nth:
  "i < 16 \<Longrightarrow> reg_index (reg_members ! i) = i \<and> reg_addr (reg_members ! i) = read_order ! i"
proof -
  assume "i < 16"
  then have "i \<in> {0,1,2,3,4,5,6,7,8,9,10,11,12,13,14,15}" by (rule lt16_cases)
  then show ?thesis unfolding reg_members_def read_order_list by auto
qed

lemma reg_addr_index: "reg_addr r = (reg_index r + 10) mod 16"
  by (cases r) simp_all

lemma reg_index_lt: "reg_index r < 16"
  by (cases r) simp_all

lemma tagged_tick: "chip_tick tagged_chip = tagged_chip"
  by (simp add: chip_tick_def chip_settle_def tagged_chip_def demo_chip_def Let_def)

lemma wr_field_simps:
  "shadow (wr_field f v s) =
     (shadow s)(reg_index (f_reg f) := set_bits (f_off f) (f_width f) v (shadow s (reg_index (f_reg f))))"
  "trace (wr_field f v s) = trace s"
  "dev (wr_field f v s) = dev s"
  by (simp_all add: wr_field_def)

lemma putShadow_dev: "dev (snd (putShadow W s)) = snd (dev_write W (dev s) (control_bytes (shadow s)))"
  by (simp add: putShadow_eq)

lemma of_bool_int_bit0: "bit (of_bool_int en) 0 = en"
  by (simp add: of_bool_int_def)

lemma uint_get_bits_Suc0: "uint (get_bits off (Suc 0) x) \<noteq> 0 \<longleftrightarrow> bit x off"
  using uint_get_bits1 [of off x] by simp

lemma getShadow_chip_shadow:
  "i < 16 \<Longrightarrow> shadow (getShadow Si4703_chip s) i = regs (chip_tick (dev s)) ((i + 10) mod 16)"
  by (simp add: getShadow_chip)

lemma getShadow_chip_dev: "dev (getShadow Si4703_chip s) = chip_tick (dev s)"
  by (simp add: getShadow_chip)

lemma putShadow_chip_regs:
  "regs (dev (snd (putShadow Si4703_chip s))) a =
     (if 2 \<le> a \<and> a < 8 then shadow s (a + 6) else regs (dev s) a)"
  by (simp add: putShadow_chip)

lemma getVolume_chip:
  "getVolume Si4703_chip s = (chip_field VOLUME (dev s), getShadow Si4703_chip s)"
  by (simp add: getVolume_def Let_def rd_field_def chip_field_def VOLUME_def
      getShadow_chip_shadow chip_tick_regs)

lemma chip_field_tick_VOLUME: "chip_field VOLUME (chip_tick c) = chip_field VOLUME c"
  by (simp add: chip_field_def VOLUME_def chip_tick_regs)

lemma setVolume_chip:
  "fst (setVolume Si4703_chip v s) = max 0 (min 15 v) \<and>
   chip_field VOLUME (dev (snd (setVolume Si4703_chip v s))) = max 0 (min 15 v)"
proof -
  define v2 where "v2 = (if (if v < 0 then 0 else v) > 15 then 15 else (if v < 0 then 0 else v))"
  have v2: "v2 = max 0 (min 15 v)" and range: "0 \<le> v2" "v2 < 16"
    by (auto simp: v2_def)
  let ?s1 = "getShadow Si4703_chip s"
  let ?s3 = "snd (putShadow Si4703_chip (wr_field VOLUME v2 ?s1))"
  have sv: "setVolume Si4703_chip v s = getVolume Si4703_chip ?s3"
    by (simp add: setVolume_def Let_def v2_def)
  have "regs (dev ?s3) 5 = set_bits 0 4 v2 (shadow ?s1 11)"
    by (simp add: putShadow_chip_regs wr_field_simps VOLUME_def)
  then have "chip_field VOLUME (dev ?s3) = v2 mod 2 ^ 4"
    by (simp add: chip_field_def VOLUME_def uint_get_set_bits)
  with range have stored: "chip_field VOLUME (dev ?s3) = v2"
    by simp
  show ?thesis
    unfolding sv getVolume_chip
    by (simp add: stored [unfolded v2] v2 getShadow_chip_dev chip_field_tick_VOLUME)
qed

lemma refreshed_shadow: "i < 16 \<Longrightarrow> shadow refreshed_radio i = 257 * of_nat ((i + 10) mod 16)"
  by (simp add: refreshed_radio_def getShadow_chip_shadow tagged_radio_def tagged_tick)
    (simp add: tagged_chip_def)

section \<open>Band tables and the range of int\<close>

lemma setRegion_tables_ok:
  assumes "band \<in> {BAND_US_EU, BAND_JPW, BAND_JP}"
    and "space \<in> {SPACE_200KHz, SPACE_100KHz, SPACE_50KHz}"
  shows "band_ok (setRegion band space de s) \<and> readback_ok (setRegion band space de s)"
  using assms
  by (auto simp: setRegion_def Let_def band_ok_def readback_ok_def fits_int_def
      BAND_US_EU_def BAND_JPW_def BAND_JP_def SPACE_200KHz_def SPACE_100KHz_def SPACE_50KHz_def)

lemma band_ok_values:
  assumes ok: "band_ok s" and lo: "m_bandStart s \<le> f" and hi: "f \<le> m_bandEnd s"
  shows "fits_int (f - m_bandStart s) \<and>
         fits_int ((f - m_bandStart s) div m_bandSpacing s) \<and>
         fits_int (m_bandSpacing s * ((f - m_bandStart s) div m_bandSpacing s)) \<and>
         fits_int (m_bandStart s + m_bandSpacing s * ((f - m_bandStart s) div m_bandSpacing s))"
proof -
  define d where "d = f - m_bandStart s"
  define q where "q = d div m_bandSpacing s"
  have sp: "0 < m_bandSpacing s" using ok by (simp add: band_ok_def)
  have d0: "0 \<le> d" and d1: "d \<le> m_bandEnd s - m_bandStart s"
    using lo hi by (simp_all add: d_def)
  have w: "m_bandEnd s - m_bandStart s \<le> 32767" "- 32768 \<le> m_bandStart s"
    "m_bandEnd s \<le> 32767"
    using ok by (simp_all add: band_ok_def fits_int_def)
  have q0: "0 \<le> q" using d0 sp by (simp add: q_def pos_imp_zdiv_nonneg_iff)
  have "m_bandSpacing s * q + d mod m_bandSpacing s = d"
    unfolding q_def by simp
  moreover have "0 \<le> d mod m_bandSpacing s" using sp by simp
  ultimately have p1: "m_bandSpacing s * q \<le> d" by linarith
  have p0: "0 \<le> m_bandSpacing s * q" using sp q0 by simp
  have "q \<le> m_bandSpacing s * q" using sp q0 by (simp add: mult_le_cancel_right1)
  then have q1: "q \<le> d" using p1 by linarith
  show ?thesis
    using d0 d1 w q0 q1 p0 p1 lo hi unfolding fits_int_def d_def [symmetric] q_def [symmetric]
    by (simp add: d_def)
qed

lemma readback_ok_values:
  assumes ok: "readback_ok s"
  shows "fits_int (m_bandSpacing s * (c mod 1024)) \<and>
         fits_int (m_bandSpacing s * (c mod 1024) + m_bandStart s)"
proof -
  have c: "0 \<le> c mod 1024" "c mod 1024 \<le> 1023" by simp_all
  have sp: "0 \<le> m_bandSpacing s" using ok by (simp add: readback_ok_def)
  have p0: "0 \<le> m_bandSpacing s * (c mod 1024)" using sp c by simp
  have p1: "m_bandSpacing s * (c mod 1024) \<le> m_bandSpacing s * 1023"
    using sp c by (intro mult_left_mono) simp_all
  show ?thesis
    using ok p0 p1 by (simp add: readback_ok_def fits_int_def)
qed

section \<open>Tuning on the chip model\<close>

lemma chip_settle_countdown: "chip_settle (c\<lparr>countdown := k\<rparr>) = (chip_settle c)\<lparr>countdown := k\<rparr>"
  by (simp add: chip_settle_def Let_def)

lemma chip_settle_fields:
  "countdown (chip_settle c) = countdown c" "latency (chip_settle c) = latency c"
  "seek_fail (chip_settle c) = seek_fail c" "seek_chan (chip_settle c) = seek_chan c"
  by (simp_all add: chip_settle_def Let_def)

lemma getSTC_chip:
  "getSTC Si4703_chip s = (bit (regs (chip_tick (dev s)) 10) 14, getShadow Si4703_chip s)"
  by (simp add: getSTC_def Let_def rd_field_def STC_def uint_get_bits_Suc0 getShadow_chip_shadow)

lemma synced_getShadow: "synced (getShadow Si4703_chip s)"
  by (simp add: synced_def getShadow_chip list_all_iff)

lemma poll_STC_chip:
  assumes "bit (regs (dev s) 10) 14 \<noteq> want"
    and "bit (regs (chip_settle (dev s)) 10) 14 = want"
    and "countdown (dev s) < n"
    and "\<And>t. dev (body t) = dev t"
    and "\<And>t. cfg (body t) = cfg t"
  shows "\<exists>s'. poll_STC n Si4703_chip want body s = Done s' \<and>
              dev s' = chip_settle ((dev s)\<lparr>countdown := 0\<rparr>) \<and>
              cfg s' = cfg s \<and> synced s'"
  using assms(1-3)
proof (induction "countdown (dev s)" arbitrary: n s)
  case 0
  then obtain m where n: "n = Suc m" by (cases n) auto
  have tick: "chip_tick (dev s) = chip_settle (dev s)"
    using 0 by (simp add: chip_tick_def)
  have same: "(dev s)\<lparr>countdown := 0\<rparr> = dev s"
    using 0 by simp
  show ?case
    using 0 by (simp add: n getSTC_chip tick same getShadow_chip_dev getShadow_cfg synced_getShadow)
next
  case (Suc k)
  then obtain m where n: "n = Suc m" and m: "k < m" by (cases n) auto
  have tick: "chip_tick (dev s) = (dev s)\<lparr>countdown := k\<rparr>"
    using Suc(2) by (simp add: chip_tick_def)
  let ?s1 = "body (getShadow Si4703_chip s)"
  have d1: "dev ?s1 = (dev s)\<lparr>countdown := k\<rparr>"
    by (simp add: assms(4) getShadow_chip_dev tick)
  have "\<exists>s'. poll_STC m Si4703_chip want body ?s1 = Done s' \<and>
              dev s' = chip_settle ((dev ?s1)\<lparr>countdown := 0\<rparr>) \<and>
              cfg s' = cfg ?s1 \<and> synced s'"
  proof (rule Suc(1))
    show "k = countdown (dev ?s1)" by (simp add: d1)
    show "bit (regs (dev ?s1) 10) 14 \<noteq> want" using Suc(3) by (simp add: d1)
    show "bit (regs (chip_settle (dev ?s1)) 10) 14 = want"
      using Suc(4) by (simp add: d1 chip_settle_countdown)
    show "countdown (dev ?s1) < m" using m by (simp add: d1)
  qed
  then obtain s' where s': "poll_STC m Si4703_chip want body ?s1 = Done s'"
     "dev s' = chip_settle ((dev ?s1)\<lparr>countdown := 0\<rparr>)" "cfg s' = cfg ?s1" "synced s'"
    by blast
  have "poll_STC n Si4703_chip want body s = Done s'"
    using Suc(3) by (simp add: n getSTC_chip tick s'(1))
  moreover have "dev s' = chip_settle ((dev s)\<lparr>countdown := 0\<rparr>)"
    by (simp add: s'(2) d1)
  moreover have "cfg s' = cfg s"
    by (simp add: s'(3) assms(5) getShadow_cfg)
  ultimately show ?case using s'(4) by blast
qed

lemma chip_tick_idle: "chip_idle c \<Longrightarrow> chip_tick c = c\<lparr>countdown := countdown c - 1\<rparr>"
  by (auto simp: chip_tick_def chip_settle_def chip_idle_def Let_def)

lemma synced_nth: "synced s \<Longrightarrow> i < 16 \<Longrightarrow> shadow s i = regs (dev s) ((i + 10) mod 16)"
  by (simp add: synced_def list_all_iff)

lemma putShadow_chip_upd:
  assumes "synced s" and "8 \<le> k" and "k < 14"
  shows "dev (snd (putShadow Si4703_chip (s\<lparr>shadow := (shadow s)(k := x)\<rparr>))) =
         (dev s)\<lparr>regs := (regs (dev s))(k - 6 := x), countdown := latency (dev s)\<rparr>"
proof (rule chip.equality)
  let ?t = "s\<lparr>shadow := (shadow s)(k := x)\<rparr>"
  show "regs (dev (snd (putShadow Si4703_chip ?t))) =
        regs ((dev s)\<lparr>regs := (regs (dev s))(k - 6 := x), countdown := latency (dev s)\<rparr>)"
  proof (rule ext)
    fix a
    show "regs (dev (snd (putShadow Si4703_chip ?t))) a =
          regs ((dev s)\<lparr>regs := (regs (dev s))(k - 6 := x), countdown := latency (dev s)\<rparr>) a"
    proof (cases "2 \<le> a \<and> a < 8")
      case True
      then have "a + 6 < 16" and "(a + 6 + 10) mod 16 = a" by auto
      with True assms show ?thesis
        by (auto simp: putShadow_chip_regs synced_nth)
    next
      case False
      with assms show ?thesis by (auto simp: putShadow_chip_regs)
    qed
  qed
qed (simp_all add: putShadow_chip)

lemma getShadow_fields:
  "m_bandStart (getShadow W s) = m_bandStart s"
  "m_bandEnd (getShadow W s) = m_bandEnd s"
  "m_bandSpacing (getShadow W s) = m_bandSpacing s"
  using getShadow_cfg [of W s] by (simp_all add: cfg_def)

lemma cfg_fields:
  "cfg t = cfg s \<Longrightarrow> m_bandStart t = m_bandStart s \<and> m_bandEnd t = m_bandEnd s \<and>
     m_bandSpacing t = m_bandSpacing s"
  by (simp add: cfg_def)

lemma get_bits_set_bits_other:
  "off2 + w2 \<le> off1 \<or> off1 + w1 \<le> off2 \<Longrightarrow>
   get_bits off1 w1 (set_bits off2 w2 v x) = get_bits off1 w1 x"
  by (rule bit_word_eqI) (auto simp: bit_get_bits bit_set_bits)

lemma id_frame: "dev (id t) = dev t" "cfg (id t) = cfg t"
  by simp_all

lemma delay_frame: "dev (delay ms t) = dev t" "cfg (delay ms t) = cfg t"
  by (simp_all add: delay_def cfg_def)

lemma sdiv_nonneg: "0 \<le> (a::int) \<Longrightarrow> 0 < b \<Longrightarrow> a sdiv b = a div b"
  by (simp add: signed_divide_int_def sgn_if)

lemma settle_tune:
  "\<not> bit (regs c 10) 14 \<Longrightarrow> bit (regs c 3) 15 \<Longrightarrow>
   regs (chip_settle c) =
     (regs c)(10 := set_bits 14 1 1 (regs c 10),
              11 := set_bits 0 10 (uint (get_bits 0 10 (regs c 3))) (regs c 11))"
  by (simp add: chip_settle_def Let_def)

lemma settle_seek:
  "\<not> bit (regs c 10) 14 \<Longrightarrow> \<not> bit (regs c 3) 15 \<Longrightarrow> bit (regs c 2) 8 \<Longrightarrow>
   regs (chip_settle c) =
     (regs c)(10 := set_bits 13 1 (of_bool_int (seek_fail c)) (set_bits 14 1 1 (regs c 10)),
              11 := set_bits 0 10 (seek_chan c) (regs c 11))"
  by (simp add: chip_settle_def Let_def)

lemma settle_clear:
  "bit (regs c 10) 14 \<Longrightarrow> \<not> bit (regs c 3) 15 \<Longrightarrow> \<not> bit (regs c 2) 8 \<Longrightarrow>
   regs (chip_settle c) = (regs c)(10 := set_bits 13 1 0 (set_bits 14 1 0 (regs c 10)))"
  by (simp add: chip_settle_def Let_def)

lemma settle_hold:
  "bit (regs c 10) 14 \<Longrightarrow> bit (regs c 3) 15 \<or> bit (regs c 2) 8 \<Longrightarrow> chip_settle c = c"
  by (auto simp: chip_settle_def Let_def)

lemma tick_hold:
  "countdown c = 0 \<Longrightarrow> bit (regs c 10) 14 \<Longrightarrow> bit (regs c 3) 15 \<or> bit (regs c 2) 8 \<Longrightarrow>
   chip_tick c = c"
  by (simp add: chip_tick_def settle_hold)

lemma bit_set_bits1: "bit (set_bits off (Suc 0) v x) k \<longleftrightarrow> (if k = off then k < 16 \<and> bit v 0 else bit x k)"
  by (auto simp: bit_set_bits)

lemma setChannel_clamp:
  "m_bandStart s \<le> m_bandEnd s \<Longrightarrow>
   setChannel n W freq s = setChannel n W (max (m_bandStart s) (min (m_bandEnd s) freq)) s"
  by (simp add: setChannel_def Let_def max_def min_def)

lemma setChannel_chip_inband:
  fixes s :: "chip Si4703"
  assumes ok: "band_ok s" and idle: "chip_idle (dev s)" and pol: "chip_polling (dev s)"
    and fuel: "latency (dev s) < n"
    and lo: "m_bandStart s \<le> freq" and hi: "freq \<le> m_bandEnd s"
  shows "\<exists>s'. setChannel n Si4703_chip freq s =
                 Done (m_bandSpacing s * ((freq - m_bandStart s) div m_bandSpacing s) + m_bandStart s, s') \<and>
              cfg s' = cfg s \<and> chip_idle (dev s') \<and> chip_polling (dev s') \<and>
              latency (dev s') = latency (dev s) \<and>
              chip_field F_READCHAN (dev s') = (freq - m_bandStart s) div m_bandSpacing s \<and>
              chip_field CHAN (dev s') = (freq - m_bandStart s) div m_bandSpacing s"
proof -
  define c where "c = dev s"
  define ch where "ch = (freq - m_bandStart s) div m_bandSpacing s"
  have sp: "0 < m_bandSpacing s" using ok by (simp add: band_ok_def)
  have ch0: "0 \<le> ch"
    using lo sp by (simp add: ch_def pos_imp_zdiv_nonneg_iff)
  have "ch \<le> (m_bandEnd s - m_bandStart s) div m_bandSpacing s"
    unfolding ch_def using hi sp by (intro zdiv_mono1) auto
  then have ch1: "ch < 1024" using ok by (simp add: band_ok_def)
  have chm: "ch mod 1024 = ch" using ch0 ch1 by simp
  have sdiv: "(freq - m_bandStart s) sdiv m_bandSpacing s = ch"
    using lo sp by (simp add: sdiv_nonneg ch_def)
  have c_idle: "\<not> bit (regs c 10) 14" "\<not> bit (regs c 3) 15" "\<not> bit (regs c 2) 8"
    using idle by (simp_all add: chip_idle_def c_def)
  have c_pol: "\<not> bit (regs c 4) 14" using pol by (simp add: chip_polling_def c_def)

  let ?s1 = "getShadow Si4703_chip s"
  have d1: "dev ?s1 = c\<lparr>countdown := countdown c - 1\<rparr>"
    using idle by (simp add: getShadow_chip_dev chip_tick_idle c_def)
  have sy1: "synced ?s1" by (rule synced_getShadow)
  define X where "X = set_bits 15 1 1 (set_bits 0 10 ch (shadow ?s1 9))"
  have s3: "wr_field TUNE 1 (wr_field CHAN ch ?s1) = ?s1\<lparr>shadow := (shadow ?s1)(9 := X)\<rparr>"
    by (simp add: wr_field_def CHAN_def TUNE_def X_def)
  let ?s4 = "snd (putShadow Si4703_chip (wr_field TUNE 1 (wr_field CHAN ch ?s1)))"
  have d4: "dev ?s4 = c\<lparr>regs := (regs c)(3 := X), countdown := latency c\<rparr>"
    unfolding s3 using putShadow_chip_upd [OF sy1, of 9 X] by (simp add: d1)
  have sh4: "shadow ?s4 = (shadow ?s1)(9 := X)"
    unfolding s3 by (simp add: putShadow_shadow)
  have cfg4: "cfg ?s4 = cfg s"
    by (simp add: putShadow_cfg wr_field_cfg getShadow_cfg)
  have "shadow ?s4 10 = regs c 4"
    by (simp add: sh4 synced_nth [OF sy1] d1)
  then have stcien: "rd_field STCIEN ?s4 = 0"
    using c_pol uint_get_bits_Suc0 [of 14 "regs c 4"] by (simp add: rd_field_def STCIEN_def)
  have X15: "bit X 15" by (simp add: X_def bit_set_bits1)

  have "\<exists>s'. poll_STC n Si4703_chip True id ?s4 = Done s' \<and>
              dev s' = chip_settle ((dev ?s4)\<lparr>countdown := 0\<rparr>) \<and>
              cfg s' = cfg ?s4 \<and> synced s'"
  proof (rule poll_STC_chip)
    show "bit (regs (dev ?s4) 10) 14 \<noteq> True" using c_idle by (simp add: d4)
    have "regs (chip_settle (dev ?s4)) 10 = set_bits 14 1 1 (regs c 10)"
      using c_idle X15 by (subst settle_tune) (simp_all add: d4)
    then show "bit (regs (chip_settle (dev ?s4)) 10) 14 = True"
      by (simp add: bit_set_bits1)
    show "countdown (dev ?s4) < n" using fuel by (simp add: d4 c_def)
  qed simp_all
  then obtain s5 where p1: "poll_STC n Si4703_chip True id ?s4 = Done s5"
    and d5: "dev s5 = chip_settle ((dev ?s4)\<lparr>countdown := 0\<rparr>)"
    and cfg5: "cfg s5 = cfg ?s4" and sy5: "synced s5"
    by blast
  define R where "R = set_bits 0 10 (uint (get_bits 0 10 X)) (regs c 11)"
  have r5: "regs (dev s5) = (regs c)(3 := X, 10 := set_bits 14 1 1 (regs c 10), 11 := R)"
    unfolding d5 using c_idle X15 by (subst settle_tune) (simp_all add: d4 R_def)
  have k5: "countdown (dev s5) = 0" "latency (dev s5) = latency c"
    by (simp_all add: d5 chip_settle_fields d4)

  let ?s6 = "getShadow Si4703_chip s5"
  have t6: "chip_tick (dev s5) = dev s5"
    by (rule tick_hold) (simp_all add: k5 r5 bit_set_bits1 X15)
  have d6: "dev ?s6 = dev s5" by (simp add: getShadow_chip_dev t6)
  have sy6: "synced ?s6" by (rule synced_getShadow)
  have x6: "shadow ?s6 9 = X"
    by (simp add: synced_nth [OF sy6] d6 r5)
  define Y where "Y = set_bits 15 1 0 X"
  have s7: "wr_field TUNE 0 ?s6 = ?s6\<lparr>shadow := (shadow ?s6)(9 := Y)\<rparr>"
    by (simp add: wr_field_def TUNE_def Y_def x6)
  let ?s8 = "snd (putShadow Si4703_chip (wr_field TUNE 0 ?s6))"
  have d8: "dev ?s8 = (dev s5)\<lparr>regs := (regs (dev s5))(3 := Y), countdown := latency c\<rparr>"
    unfolding s7 using putShadow_chip_upd [OF sy6, of 9 Y] by (simp add: d6 k5)
  have cfg8: "cfg ?s8 = cfg s"
    by (simp add: putShadow_cfg wr_field_cfg getShadow_cfg cfg5 cfg4)
  have Y15: "\<not> bit Y 15" by (simp add: Y_def bit_set_bits1)
  have r8: "regs (dev ?s8) = (regs c)(3 := Y, 10 := set_bits 14 1 1 (regs c 10), 11 := R)"
    by (simp add: d8 r5 fun_upd_twist)

  have "\<exists>s'. poll_STC n Si4703_chip False id ?s8 = Done s' \<and>
              dev s' = chip_settle ((dev ?s8)\<lparr>countdown := 0\<rparr>) \<and>
              cfg s' = cfg ?s8 \<and> synced s'"
  proof (rule poll_STC_chip)
    show "bit (regs (dev ?s8) 10) 14 \<noteq> False" by (simp add: r8 bit_set_bits1)
    have "regs (chip_settle (dev ?s8)) 10 = set_bits 13 1 0 (set_bits 14 1 0 (regs (dev ?s8) 10))"
      using c_idle Y15 by (subst settle_clear) (simp_all add: r8 bit_set_bits1)
    then show "bit (regs (chip_settle (dev ?s8)) 10) 14 = False"
      by (simp add: bit_set_bits1)
    show "countdown (dev ?s8) < n" using fuel by (simp add: d8 c_def)
  qed simp_all
  then obtain s9 where p2: "poll_STC n Si4703_chip False id ?s8 = Done s9"
    and d9: "dev s9 = chip_settle ((dev ?s8)\<lparr>countdown := 0\<rparr>)"
    and cfg9: "cfg s9 = cfg ?s8" and sy9: "synced s9"
    by blast
  define Z where "Z = set_bits 13 1 0 (set_bits 14 1 0 (set_bits 14 1 1 (regs c 10)))"
  have r9: "regs (dev s9) = (regs c)(3 := Y, 11 := R, 10 := Z)"
    unfolding d9 using c_idle Y15
    by (subst settle_clear) (simp_all add: r8 bit_set_bits1 Z_def)
  have k9: "latency (dev s9) = latency c"
    by (simp add: d9 chip_settle_fields d8 k5)
  have Z14: "\<not> bit Z 14" by (simp add: Z_def bit_set_bits1)
  have idle9: "chip_idle (dev s9)"
    using c_idle Y15 Z14 by (simp add: chip_idle_def r9)

  let ?s10 = "getShadow Si4703_chip s9"
  have d10: "dev ?s10 = (dev s9)\<lparr>countdown := countdown (dev s9) - 1\<rparr>"
    using idle9 by (simp add: getShadow_chip_dev chip_tick_idle)
  have sy10: "synced ?s10" by (rule synced_getShadow)
  have cfg10: "cfg ?s10 = cfg s" by (simp add: getShadow_cfg cfg9 cfg8)
  have "shadow ?s10 1 = R" by (simp add: synced_nth [OF sy10] d10 r9)
  then have "rd_field F_READCHAN ?s10 = uint (get_bits 0 10 R)"
    by (simp add: rd_field_def F_READCHAN_def)
  also have "\<dots> = uint (get_bits 0 10 X) mod 2 ^ 10"
    unfolding R_def by (rule uint_get_set_bits) simp
  also have "get_bits 0 10 X = get_bits 0 10 (set_bits 0 10 ch (shadow ?s1 9))"
    unfolding X_def by (rule get_bits_set_bits_other) simp
  also have "uint \<dots> = ch mod 2 ^ 10"
    by (rule uint_get_set_bits) simp
  finally have rc: "rd_field F_READCHAN ?s10 = ch" by (simp add: chm)
  have gc: "getChannel Si4703_chip s9 = (m_bandSpacing s * ch + m_bandStart s, ?s10)"
    using cfg_fields [OF cfg10] by (simp add: getChannel_def Let_def rc)

  have run: "setChannel n Si4703_chip freq s = Done (m_bandSpacing s * ch + m_bandStart s, ?s10)"
    using lo hi sp
    by (simp add: setChannel_def Let_def getShadow_fields sdiv stcien p1 p2 gc)
  have f1: "chip_field F_READCHAN (dev ?s10) = ch"
    using rc by (simp add: rd_field_def chip_field_def F_READCHAN_def synced_nth [OF sy10])
  have "chip_field CHAN (dev ?s10) = uint (get_bits 0 10 Y)"
    by (simp add: chip_field_def CHAN_def d10 r9)
  also have "get_bits 0 10 Y = get_bits 0 10 X"
    unfolding Y_def by (rule get_bits_set_bits_other) simp
  also have "\<dots> = get_bits 0 10 (set_bits 0 10 ch (shadow ?s1 9))"
    unfolding X_def by (rule get_bits_set_bits_other) simp
  also have "uint \<dots> = ch mod 2 ^ 10"
    by (rule uint_get_set_bits) simp
  finally have f2: "chip_field CHAN (dev ?s10) = ch" by (simp add: chm)
  have idle10: "chip_idle (dev ?s10)"
    using idle9 by (simp add: chip_idle_def d10)
  have pol10: "chip_polling (dev ?s10)"
    using c_pol by (simp add: chip_polling_def d10 r9)
  have lat10: "latency (dev ?s10) = latency (dev s)"
    by (simp add: d10 k9 c_def)
  show ?thesis
    using run cfg10 idle10 pol10 lat10 f1 f2 unfolding ch_def by blast
qed

lemma getChannel_chip_idle:
  "chip_idle (dev s) \<Longrightarrow>
   fst (getChannel Si4703_chip s) =
     m_bandSpacing s * chip_field F_READCHAN (dev s) + m_bandStart s"
  by (simp add: getChannel_def Let_def getShadow_fields rd_field_def chip_field_def F_READCHAN_def
      getShadow_chip_shadow chip_tick_idle)

lemma tuned_radio_fields:
  "m_bandStart tuned_radio = 8750" "m_bandEnd tuned_radio = 10800" "m_bandSpacing tuned_radio = 10"
  "dev tuned_radio = demo_chip"
  by (simp_all add: tuned_radio_def radio_def setRegion_def Si4703_new_def raw_memory_def
      BAND_US_EU_def BAND_JPW_def BAND_JP_def SPACE_100KHz_def SPACE_200KHz_def SPACE_50KHz_def)

lemma demo_chip_ready:
  "chip_idle demo_chip" "chip_polling demo_chip" "latency demo_chip = 2"
  by (simp_all add: chip_idle_def chip_polling_def demo_chip_def)

section \<open>Seeking on the chip model\<close>

lemma seek_chip:
  fixes s :: "chip Si4703"
  assumes idle: "chip_idle (dev s)" and pol: "chip_polling (dev s)"
    and fuel: "latency (dev s) < n"
  shows "\<exists>s'. seek n Si4703_chip dir s =
                 Done (if seek_fail (dev s) then 0
                       else m_bandSpacing s * (seek_chan (dev s) mod 1024) + m_bandStart s, s') \<and>
              cfg s' = cfg s \<and> chip_idle (dev s') \<and> chip_polling (dev s') \<and>
              latency (dev s') = latency (dev s) \<and>
              chip_field F_READCHAN (dev s') = seek_chan (dev s) mod 1024"
proof -
  define c where "c = dev s"
  have c_idle: "\<not> bit (regs c 10) 14" "\<not> bit (regs c 3) 15" "\<not> bit (regs c 2) 8"
    using idle by (simp_all add: chip_idle_def c_def)
  have c_pol: "\<not> bit (regs c 4) 14" using pol by (simp add: chip_polling_def c_def)

  let ?s1 = "getShadow Si4703_chip s"
  have d1: "dev ?s1 = c\<lparr>countdown := countdown c - 1\<rparr>"
    using idle by (simp add: getShadow_chip_dev chip_tick_idle c_def)
  have sy1: "synced ?s1" by (rule synced_getShadow)
  define X where "X = set_bits 8 1 1 (set_bits 9 1 (uint dir) (shadow ?s1 8))"
  have s3: "wr_field SEEK 1 (wr_field SEEKUP (uint dir) ?s1) = ?s1\<lparr>shadow := (shadow ?s1)(8 := X)\<rparr>"
    by (simp add: wr_field_def SEEK_def SEEKUP_def X_def)
  let ?s4 = "snd (putShadow Si4703_chip (wr_field SEEK 1 (wr_field SEEKUP (uint dir) ?s1)))"
  have d4: "dev ?s4 = c\<lparr>regs := (regs c)(2 := X), countdown := latency c\<rparr>"
    unfolding s3 using putShadow_chip_upd [OF sy1, of 8 X] by (simp add: d1)
  have sh4: "shadow ?s4 = (shadow ?s1)(8 := X)"
    unfolding s3 by (simp add: putShadow_shadow)
  have cfg4: "cfg ?s4 = cfg s"
    by (simp add: putShadow_cfg wr_field_cfg getShadow_cfg)
  have "shadow ?s4 10 = regs c 4"
    by (simp add: sh4 synced_nth [OF sy1] d1)
  then have stcien: "rd_field STCIEN ?s4 = 0"
    using c_pol uint_get_bits_Suc0 [of 14 "regs c 4"] by (simp add: rd_field_def STCIEN_def)
  have X8: "bit X 8" by (simp add: X_def bit_set_bits1)

  define S where "S = set_bits 13 1 (of_bool_int (seek_fail c)) (set_bits 14 1 1 (regs c 10))"
  define R where "R = set_bits 0 10 (seek_chan c) (regs c 11)"
  have S14: "bit S 14" and S13: "bit S 13 = seek_fail c"
    by (simp_all add: S_def bit_set_bits1 of_bool_int_bit0)
  have "\<exists>s'. poll_STC n Si4703_chip True (delay 40) ?s4 = Done s' \<and>
              dev s' = chip_settle ((dev ?s4)\<lparr>countdown := 0\<rparr>) \<and>
              cfg s' = cfg ?s4 \<and> synced s'"
  proof (rule poll_STC_chip)
    show "bit (regs (dev ?s4) 10) 14 \<noteq> True" using c_idle by (simp add: d4)
    have "regs (chip_settle (dev ?s4)) 10 = S"
      using c_idle X8 by (subst settle_seek) (simp_all add: d4 S_def)
    then show "bit (regs (chip_settle (dev ?s4)) 10) 14 = True"
      by (simp add: S14)
    show "countdown (dev ?s4) < n" using fuel by (simp add: d4 c_def)
  qed (simp_all add: delay_frame)
  then obtain s5 where p1: "poll_STC n Si4703_chip True (delay 40) ?s4 = Done s5"
    and d5: "dev s5 = chip_settle ((dev ?s4)\<lparr>countdown := 0\<rparr>)"
    and cfg5: "cfg s5 = cfg ?s4" and sy5: "synced s5"
    by blast
  have r5: "regs (dev s5) = (regs c)(2 := X, 10 := S, 11 := R)"
    unfolding d5 using c_idle X8 by (subst settle_seek) (simp_all add: d4 R_def S_def)
  have k5: "countdown (dev s5) = 0" "latency (dev s5) = latency c"
    "seek_fail (dev s5) = seek_fail c" "seek_chan (dev s5) = seek_chan c"
    by (simp_all add: d5 chip_settle_fields d4)

  let ?s6 = "getShadow Si4703_chip s5"
  have t6: "chip_tick (dev s5) = dev s5"
    by (rule tick_hold) (simp_all add: k5 r5 S14 X8)
  have d6: "dev ?s6 = dev s5" by (simp add: getShadow_chip_dev t6)
  have sy6: "synced ?s6" by (rule synced_getShadow)
  have x6: "shadow ?s6 8 = X"
    by (simp add: synced_nth [OF sy6] d6 r5)
  have "shadow ?s6 0 = S"
    by (simp add: synced_nth [OF sy6] d6 r5)
  then have sfbl: "(rd_field SFBL ?s6 \<noteq> 0) = seek_fail c"
    using uint_get_bits_Suc0 [of 13 S] by (simp add: rd_field_def SFBL_def S13)
  define Y where "Y = set_bits 8 1 0 X"
  have s7: "wr_field SEEK 0 ?s6 = ?s6\<lparr>shadow := (shadow ?s6)(8 := Y)\<rparr>"
    by (simp add: wr_field_def SEEK_def Y_def x6)
  let ?s8 = "snd (putShadow Si4703_chip (wr_field SEEK 0 ?s6))"
  have d8: "dev ?s8 = (dev s5)\<lparr>regs := (regs (dev s5))(2 := Y), countdown := latency c\<rparr>"
    unfolding s7 using putShadow_chip_upd [OF sy6, of 8 Y] by (simp add: d6 k5)
  have cfg8: "cfg ?s8 = cfg s"
    by (simp add: putShadow_cfg wr_field_cfg getShadow_cfg cfg5 cfg4)
  have Y8: "\<not> bit Y 8" by (simp add: Y_def bit_set_bits1)
  have r8: "regs (dev ?s8) = (regs c)(2 := Y, 10 := S, 11 := R)"
    by (simp add: d8 r5 fun_upd_twist)

  define Z where "Z = set_bits 13 1 0 (set_bits 14 1 0 S)"
  have "\<exists>s'. poll_STC n Si4703_chip False id ?s8 = Done s' \<and>
              dev s' = chip_settle ((dev ?s8)\<lparr>countdown := 0\<rparr>) \<and>
              cfg s' = cfg ?s8 \<and> synced s'"
  proof (rule poll_STC_chip)
    show "bit (regs (dev ?s8) 10) 14 \<noteq> False" by (simp add: r8 S14)
    have "regs (chip_settle (dev ?s8)) 10 = Z"
      using c_idle Y8 by (subst settle_clear) (simp_all add: r8 S14 Z_def)
    then show "bit (regs (chip_settle (dev ?s8)) 10) 14 = False"
      by (simp add: Z_def bit_set_bits1)
    show "countdown (dev ?s8) < n" using fuel by (simp add: d8 c_def)
  qed simp_all
  then obtain s9 where p2: "poll_STC n Si4703_chip False id ?s8 = Done s9"
    and d9: "dev s9 = chip_settle ((dev ?s8)\<lparr>countdown := 0\<rparr>)"
    and cfg9: "cfg s9 = cfg ?s8" and sy9: "synced s9"
    by blast
  have r9: "regs (dev s9) = (regs c)(2 := Y, 11 := R, 10 := Z)"
    unfolding d9 using c_idle Y8
    by (subst settle_clear) (simp_all add: r8 S14 Z_def)
  have k9: "latency (dev s9) = latency c"
    by (simp add: d9 chip_settle_fields d8 k5)
  have Z14: "\<not> bit Z 14" by (simp add: Z_def bit_set_bits1)
  have idle9: "chip_idle (dev s9)"
    using c_idle Y8 Z14 by (simp add: chip_idle_def r9)
  have pol9: "chip_polling (dev s9)"
    using c_pol by (simp add: chip_polling_def r9)
  have "chip_field F_READCHAN (dev s9) = uint (get_bits 0 10 R)"
    by (simp add: chip_field_def F_READCHAN_def r9)
  also have "\<dots> = seek_chan c mod 2 ^ 10"
    unfolding R_def by (rule uint_get_set_bits) simp
  finally have rc9: "chip_field F_READCHAN (dev s9) = seek_chan c mod 1024" by simp

  let ?s10 = "getShadow Si4703_chip s9"
  have d10: "dev ?s10 = (dev s9)\<lparr>countdown := countdown (dev s9) - 1\<rparr>"
    using idle9 by (simp add: getShadow_chip_dev chip_tick_idle)
  have cfg10: "cfg ?s10 = cfg s" by (simp add: getShadow_cfg cfg9 cfg8)
  have gc: "getChannel Si4703_chip s9 =
      (m_bandSpacing s * (seek_chan c mod 1024) + m_bandStart s, ?s10)"
    using getChannel_chip_idle [OF idle9] cfg_fields [OF cfg9] cfg_fields [OF cfg8]
    by (simp add: getChannel_def Let_def rc9 getShadow_fields)
  have run: "seek n Si4703_chip dir s =
      (if seek_fail c then Done (0, s9)
       else Done (m_bandSpacing s * (seek_chan c mod 1024) + m_bandStart s, ?s10))"
    by (simp add: seek_def Let_def stcien p1 p2 sfbl gc)
  show ?thesis
  proof (cases "seek_fail c")
    case True
    then show ?thesis
      using run cfg9 cfg8 idle9 pol9 k9 rc9 by (auto simp: c_def)
  next
    case False
    have "chip_idle (dev ?s10)" "chip_polling (dev ?s10)" "latency (dev ?s10) = latency c"
      "chip_field F_READCHAN (dev ?s10) = seek_chan c mod 1024"
      using idle9 pol9 k9 rc9
      by (simp_all add: d10 chip_idle_def chip_polling_def chip_field_def)
    with False show ?thesis
      using run cfg10 by (auto simp: c_def)
  qed
qed

section \<open>Traces of the polling loops\<close>











section \<open>The claims\<close>

subsection \<open>Write-back scope\<close>

text \<open>
  Claim C3. Every call of \<^verbatim>\<open>putShadow\<close>, whatever the shadow holds (and so whichever
  field was changed before), sends one block write of exactly twelve bytes: the shadow
  words 8 to 13, each high byte first, in ascending order. These are the registers
  0x02 to 0x07 (power configuration, channel, system configuration 1 to 3, test 1).
  The status the device returns is the function's result.
\<close>

theorem putShadow_six_control_words:
  "(let tx = [hi_byte (shadow s 8), lo_byte (shadow s 8), hi_byte (shadow s 9), lo_byte (shadow s 9),
              hi_byte (shadow s 10), lo_byte (shadow s 10), hi_byte (shadow s 11), lo_byte (shadow s 11),
              hi_byte (shadow s 12), lo_byte (shadow s 12), hi_byte (shadow s 13), lo_byte (shadow s 13)]
    in trace (snd (putShadow W s)) = trace s @ [BusWrite I2C_ADDR tx] \<and>
       length tx = 12 \<and>
       fst (putShadow W s) = fst (dev_write W (dev s) tx) \<and>
       dev (snd (putShadow W s)) = snd (dev_write W (dev s) tx)) \<and>
   map (\<lambda>i. reg_addr (reg_members ! i)) [8, 9, 10, 11, 12, 13] = [0x02, 0x03, 0x04, 0x05, 0x06, 0x07]"
  by (simp add: putShadow_eq control_bytes_list reg_members_def)

subsection \<open>Unknown band and spacing selectors\<close>

text \<open>
  Claim C9. \<^verbatim>\<open>setRegion\<close> with a band selector other than the three band constants
  leaves \<^verbatim>\<open>_bandStart\<close> and \<^verbatim>\<open>_bandEnd\<close> as they were, and with a spacing selector
  other than the three spacing constants it leaves \<^verbatim>\<open>_bandSpacing\<close> as it was; no
  error is reported (the function has no error result). Hence after \<^verbatim>\<open>start\<close> with
  such a selector the band getters return what the fields held before, and the
  constructor does not initialise these fields.
\<close>

theorem setRegion_ignores_unknown_selectors:
  "(band \<notin> {BAND_US_EU, BAND_JPW, BAND_JP} \<longrightarrow>
      m_bandStart (setRegion band space de s) = m_bandStart s \<and>
      m_bandEnd (setRegion band space de s) = m_bandEnd s) \<and>
   (space \<notin> {SPACE_200KHz, SPACE_100KHz, SPACE_50KHz} \<longrightarrow>
      m_bandSpacing (setRegion band space de s) = m_bandSpacing s) \<and>
   (m_band s \<notin> {BAND_US_EU, BAND_JPW, BAND_JP} \<longrightarrow>
      getBandStart (start W s) = m_bandStart s \<and> getBandEnd (start W s) = m_bandEnd s) \<and>
   (m_space s \<notin> {SPACE_200KHz, SPACE_100KHz, SPACE_50KHz} \<longrightarrow>
      getBandSpace (start W s) = m_bandSpacing s) \<and>
   (let s0 = Si4703_new raw rstPin sdioPin sclkPin intPin b sp d skmode seekth skcnt sksnr agcd
    in m_band s0 = b \<and> m_space s0 = sp \<and> m_bandStart s0 = m_bandStart raw \<and>
       m_bandEnd s0 = m_bandEnd raw \<and> m_bandSpacing s0 = m_bandSpacing raw)"
proof -
  have a: "band \<notin> {BAND_US_EU, BAND_JPW, BAND_JP} \<Longrightarrow>
      m_bandStart (setRegion band space de s) = m_bandStart s \<and>
      m_bandEnd (setRegion band space de s) = m_bandEnd s" for band space de and s :: "'a Si4703"
    by (simp add: setRegion_def Let_def)
  have b: "space \<notin> {SPACE_200KHz, SPACE_100KHz, SPACE_50KHz} \<Longrightarrow>
      m_bandSpacing (setRegion band space de s) = m_bandSpacing s" for band space de and s :: "'a Si4703"
    by (simp add: setRegion_def Let_def)
  have c: "m_bandStart (start W s) = m_bandStart (setRegion (m_band s) (m_space s) (m_de s) s)"
     "m_bandEnd (start W s) = m_bandEnd (setRegion (m_band s) (m_space s) (m_de s) s)"
     "m_bandSpacing (start W s) = m_bandSpacing (setRegion (m_band s) (m_space s) (m_de s) s)"
    using start_cfg [of W s] by (simp_all add: cfg_def)
  show ?thesis
    using a b a [of "m_band s" "m_space s" "m_de s" s] b [of "m_space s" "m_band s" "m_de s" s]
    by (simp add: c getBandStart_def getBandEnd_def getBandSpace_def Si4703_new_def)
qed

theorem setRegion_ignores_unknown_selectors_witness:
  "(3::int) \<notin> {BAND_US_EU, BAND_JPW, BAND_JP} \<and>
   (7::int) \<notin> {SPACE_200KHz, SPACE_100KHz, SPACE_50KHz} \<and>
   m_band odd_radio = 3 \<and> m_space odd_radio = 7 \<and>
   m_bandStart (setRegion 3 7 0 odd_radio) = 1234 \<and>
   m_bandEnd (setRegion 3 7 0 odd_radio) = 5678 \<and>
   m_bandSpacing (setRegion 3 7 0 odd_radio) = 42 \<and>
   getBandStart (start Si4703_chip odd_radio) = 1234 \<and>
   getBandEnd (start Si4703_chip odd_radio) = 5678 \<and>
   getBandSpace (start Si4703_chip odd_radio) = 42"
  using setRegion_ignores_unknown_selectors
    [where band = 3 and space = 7 and de = 0 and s = odd_radio and W = Si4703_chip
       and raw = raw_memory and rstPin = 9 and sdioPin = 7 and sclkPin = 8 and intPin = 0
       and b = 3 and sp = 7 and d = 0 and skmode = 1 and seekth = 24 and skcnt = 15
       and sksnr = 15 and agcd = 0]
  by (simp add: odd_radio_def Si4703_new_def raw_memory_def
      BAND_US_EU_def BAND_JPW_def BAND_JP_def SPACE_200KHz_def SPACE_100KHz_def SPACE_50KHz_def)

subsection \<open>Read order\<close>

text \<open>
  Claim C4. Every call of \<^verbatim>\<open>getShadow\<close> runs one block read of 32 bytes. Whatever 32
  bytes the device answers, shadow word \<open>i\<close> is the big-endian word of the bytes
  \<open>2 i\<close> and \<open>2 i + 1\<close>, and the \<open>i\<close>-th member of \<^verbatim>\<open>struct reg\<close> is the register
  the chip sends at that position: the addresses 0x0A to 0x0F at the indices 0 to 5,
  then 0x00 to 0x09 at the indices 6 to 15.
\<close>

theorem getShadow_read_order:
  assumes "dev_read W (dev s) 32 = (bs, d)" and "32 \<le> length bs"
  shows "trace (getShadow W s) = trace s @ [BusRead I2C_ADDR 32 (take 32 bs)] \<and>
         dev (getShadow W s) = d \<and>
         (\<forall>i<16. shadow (getShadow W s) i = be16 (bs ! (2 * i)) (bs ! (2 * i + 1)) \<and>
                  reg_index (reg_members ! i) = i \<and>
                  reg_addr (reg_members ! i) = read_order ! i) \<and>
         read_order = [0x0A, 0x0B, 0x0C, 0x0D, 0x0E, 0x0F, 0, 1, 2, 3, 4, 5, 6, 7, 8, 9] \<and>
         (\<forall>c. \<forall>i<16. be16 (chip_bytes c ! (2 * i)) (chip_bytes c ! (2 * i + 1)) = regs c (read_order ! i))"
  using reg_members_nth chip_bytes_nth
  by (simp add: getShadow_eq [OF assms] read_order_list)

theorem getShadow_read_order_witness:
  "dev_read Si4703_chip (dev tagged_radio) 32 = (chip_bytes tagged_chip, tagged_chip) \<and>
   32 \<le> length (chip_bytes tagged_chip) \<and>
   trace (getShadow Si4703_chip tagged_radio) =
     [BusRead I2C_ADDR 32
       [0x0A, 0x0A, 0x0B, 0x0B, 0x0C, 0x0C, 0x0D, 0x0D, 0x0E, 0x0E, 0x0F, 0x0F, 0, 0, 1, 1,
        2, 2, 3, 3, 4, 4, 5, 5, 6, 6, 7, 7, 8, 8, 9, 9]] \<and>
   shadow (getShadow Si4703_chip tagged_radio) 0 = 0x0A0A \<and>
   shadow (getShadow Si4703_chip tagged_radio) 5 = 0x0F0F \<and>
   shadow (getShadow Si4703_chip tagged_radio) 6 = 0x0000 \<and>
   shadow (getShadow Si4703_chip tagged_radio) 15 = 0x0909"
proof -
  have h1: "dev_read Si4703_chip (dev tagged_radio) 32 = (chip_bytes tagged_chip, tagged_chip)"
    by (simp add: Si4703_chip_def chip_read_def tagged_radio_def tagged_tick length_chip_bytes)
  have h2: "32 \<le> length (chip_bytes tagged_chip)"
    by (simp add: length_chip_bytes)
  have bytes: "chip_bytes tagged_chip =
     [0x0A, 0x0A, 0x0B, 0x0B, 0x0C, 0x0C, 0x0D, 0x0D, 0x0E, 0x0E, 0x0F, 0x0F, 0, 0, 1, 1,
      2, 2, 3, 3, 4, 4, 5, 5, 6, 6, 7, 7, 8, 8, 9, 9]"
    by (simp add: chip_bytes_def read_order_list tagged_chip_def hi_byte_def lo_byte_def)
  have tr: "trace tagged_radio = []"
    by (simp add: tagged_radio_def raw_memory_def)
  show ?thesis
    using getShadow_read_order [OF h1 h2] h1 h2
    by (simp add: bytes tr be16_def)
qed

subsection \<open>Layout of the shadow\<close>

text \<open>
  Claim C2, as the specification states it, places the six writable control registers at
  the shadow indices 2 to 7 and has the write-back send these words. In the code the
  indices 2 to 7 hold RDSA to RDSD, DEVICEID and CHIPID, and the write-back sends the
  words 8 to 13. With a chip whose register at address \<open>a\<close> holds \<open>257 a\<close>: after a
  refresh, index 2 holds the register 0x0C and not the register 0x02, and the write-back
  sends the bytes of the registers 0x02 to 0x07, which are the words 8 to 13.
\<close>

theorem shadow_layout_counterexample:
  "shadow refreshed_radio 2 = regs (dev refreshed_radio) (reg_addr RDSA) \<and>
   shadow refreshed_radio 2 \<noteq> regs (dev refreshed_radio) (reg_addr POWERCFG) \<and>
   shadow refreshed_radio 7 = regs (dev refreshed_radio) (reg_addr CHIPID) \<and>
   shadow refreshed_radio 7 \<noteq> regs (dev refreshed_radio) (reg_addr TEST1) \<and>
   shadow refreshed_radio 8 = regs (dev refreshed_radio) (reg_addr POWERCFG) \<and>
   trace (snd (putShadow Si4703_chip refreshed_radio)) =
     trace refreshed_radio @ [BusWrite I2C_ADDR [2, 2, 3, 3, 4, 4, 5, 5, 6, 6, 7, 7]] \<and>
   [hi_byte (shadow refreshed_radio 2), lo_byte (shadow refreshed_radio 2),
    hi_byte (shadow refreshed_radio 3), lo_byte (shadow refreshed_radio 3),
    hi_byte (shadow refreshed_radio 4), lo_byte (shadow refreshed_radio 4),
    hi_byte (shadow refreshed_radio 5), lo_byte (shadow refreshed_radio 5),
    hi_byte (shadow refreshed_radio 6), lo_byte (shadow refreshed_radio 6),
    hi_byte (shadow refreshed_radio 7), lo_byte (shadow refreshed_radio 7)] =
     [0x0C, 0x0C, 0x0D, 0x0D, 0x0E, 0x0E, 0x0F, 0x0F, 0, 0, 1, 1]"
proof -
  have d: "regs (dev refreshed_radio) a = 257 * of_nat a" for a
    by (simp add: refreshed_radio_def getShadow_chip_dev tagged_radio_def tagged_tick)
      (simp add: tagged_chip_def)
  show ?thesis
    by (simp add: refreshed_shadow d putShadow_trace control_bytes_list hi_byte_def lo_byte_def)
qed

text \<open>
  Claim C2, amended. After every refresh from the chip, each member of \<^verbatim>\<open>struct reg\<close>
  holds the register of its name: index 0 the status register, index 1 the read-channel
  register, the indices 2 to 7 RDSA to RDSD, DEVICEID and CHIPID, the indices 8 to 13 the
  six writable control registers, the indices 14 and 15 TEST2 and BOOTCONFIG. The
  write-back sends the words 8 to 13, and in the chip it changes these six registers
  and no other.
\<close>

theorem shadow_layout:
  "(\<forall>r. shadow (getShadow Si4703_chip s) (reg_index r) =
        regs (dev (getShadow Si4703_chip s)) (reg_addr r)) \<and>
   map reg_index [STATUSRSSI, READCHAN] = [0, 1] \<and>
   map reg_index [RDSA, RDSB, RDSC, RDSD, DEVICEID, CHIPID] = [2, 3, 4, 5, 6, 7] \<and>
   map reg_index [POWERCFG, CHANNEL, SYSCONFIG1, SYSCONFIG2, SYSCONFIG3, TEST1] =
     [8, 9, 10, 11, 12, 13] \<and>
   map reg_index [TEST2, BOOTCONFIG] = [14, 15] \<and>
   trace (snd (putShadow W t)) =
     trace t @ [BusWrite I2C_ADDR
       (concat (map (\<lambda>r. [hi_byte (shadow t (reg_index r)), lo_byte (shadow t (reg_index r))])
          [POWERCFG, CHANNEL, SYSCONFIG1, SYSCONFIG2, SYSCONFIG3, TEST1]))] \<and>
   (\<forall>r. regs (dev (snd (putShadow Si4703_chip s))) (reg_addr r) =
        (if r \<in> {POWERCFG, CHANNEL, SYSCONFIG1, SYSCONFIG2, SYSCONFIG3, TEST1}
         then shadow s (reg_index r) else regs (dev s) (reg_addr r)))"
proof -
  have a: "shadow (getShadow Si4703_chip s) (reg_index r) =
        regs (dev (getShadow Si4703_chip s)) (reg_addr r)" for r
    by (simp add: getShadow_chip_shadow reg_index_lt getShadow_chip_dev reg_addr_index)
  have b: "regs (dev (snd (putShadow Si4703_chip s))) (reg_addr r) =
        (if r \<in> {POWERCFG, CHANNEL, SYSCONFIG1, SYSCONFIG2, SYSCONFIG3, TEST1}
         then shadow s (reg_index r) else regs (dev s) (reg_addr r))" for r
    by (cases r) (simp_all add: putShadow_chip_regs)
  show ?thesis
    using a b by (simp add: putShadow_trace control_bytes_list)
qed

subsection \<open>Mute polarity\<close>

text \<open>
  Claim C8. \<^verbatim>\<open>setMute(en)\<close> assigns \<open>en\<close> to the DMUTE bit (bit 14 of POWERCFG) of
  the refreshed shadow, changes nothing else and writes the control words back, so the
  chip's DMUTE bit becomes \<open>en\<close>: \<open>True\<close> unmutes, \<open>False\<close> mutes. \<^verbatim>\<open>getMute\<close>
  returns the DMUTE bit of a fresh read, so after \<^verbatim>\<open>setMute(en)\<close> it returns \<open>en\<close>.
\<close>

theorem setMute_writes_DMUTE:
  "bit (shadow (setMute W en s) (reg_index POWERCFG)) 14 = en \<and>
   (\<forall>b. b \<noteq> 14 \<longrightarrow>
      bit (shadow (setMute W en s) (reg_index POWERCFG)) b =
      bit (shadow (getShadow W s) (reg_index POWERCFG)) b) \<and>
   (\<forall>i. i \<noteq> reg_index POWERCFG \<longrightarrow> shadow (setMute W en s) i = shadow (getShadow W s) i) \<and>
   trace (setMute W en s) =
     trace s @ [BusRead I2C_ADDR 32 (take 32 (fst (dev_read W (dev s) 32))),
                BusWrite I2C_ADDR (control_bytes (shadow (setMute W en s)))] \<and>
   fst (getMute W s) = bit (shadow (getShadow W s) (reg_index POWERCFG)) 14 \<and>
   snd (getMute W s) = getShadow W s \<and>
   bit (regs (dev (setMute Si4703_chip en c)) (reg_addr POWERCFG)) 14 = en \<and>
   fst (getMute Si4703_chip (setMute Si4703_chip en c)) = en"
proof -
  have sh: "shadow (setMute W en s) =
      (shadow (getShadow W s))(8 := set_bits 14 1 (of_bool_int en) (shadow (getShadow W s) 8))"
    for W :: "'b device" and s :: "'b Si4703"
    by (simp add: setMute_def Let_def putShadow_shadow wr_field_simps DMUTE_def)
  have a: "bit (shadow (setMute W en s) (reg_index POWERCFG)) 14 = en"
    for W :: "'b device" and s :: "'b Si4703"
    by (simp add: sh bit_set_bits of_bool_int_bit0)
  have b: "\<forall>b. b \<noteq> 14 \<longrightarrow>
      bit (shadow (setMute W en s) (reg_index POWERCFG)) b =
      bit (shadow (getShadow W s) (reg_index POWERCFG)) b"
    by (auto simp: sh bit_set_bits)
  have c: "\<forall>i. i \<noteq> reg_index POWERCFG \<longrightarrow> shadow (setMute W en s) i = shadow (getShadow W s) i"
    by (simp add: sh)
  have d: "trace (setMute W en s) =
     trace s @ [BusRead I2C_ADDR 32 (take 32 (fst (dev_read W (dev s) 32))),
                BusWrite I2C_ADDR (control_bytes (shadow (setMute W en s)))]"
    by (simp add: setMute_def Let_def putShadow_trace putShadow_shadow wr_field_simps getShadow_trace)
  have e: "fst (getMute W s) = bit (shadow (getShadow W s) (reg_index POWERCFG)) 14"
    for W :: "'b device" and s :: "'b Si4703"
    by (simp add: getMute_def Let_def rd_field_def DMUTE_def uint_get_bits_Suc0)
  have f: "snd (getMute W s) = getShadow W s"
    by (simp add: getMute_def Let_def)
  have g: "regs (dev (setMute Si4703_chip en c)) 2 = shadow (setMute Si4703_chip en c) 8"
    by (simp add: setMute_def Let_def putShadow_chip_regs putShadow_shadow)
  have h: "bit (regs (dev (setMute Si4703_chip en c)) (reg_addr POWERCFG)) 14 = en"
    using a [of Si4703_chip c] by (simp add: g)
  have "shadow (getShadow Si4703_chip (setMute Si4703_chip en c)) 8 =
        regs (dev (setMute Si4703_chip en c)) 2"
    by (simp add: getShadow_chip_shadow chip_tick_regs)
  then have i: "fst (getMute Si4703_chip (setMute Si4703_chip en c)) = en"
    using h by (simp add: e)
  from a b c d e f h i show ?thesis by blast
qed

theorem setMute_writes_DMUTE_witness:
  "(13::nat) \<noteq> 14 \<and> (9::nat) \<noteq> reg_index POWERCFG \<and>
   bit (shadow (setMute Si4703_chip True tuned_radio) 8) 14 \<and>
   bit (shadow (setMute Si4703_chip True tuned_radio) 8) 13 =
     bit (shadow (getShadow Si4703_chip tuned_radio) 8) 13 \<and>
   shadow (setMute Si4703_chip True tuned_radio) 9 = shadow (getShadow Si4703_chip tuned_radio) 9 \<and>
   fst (getMute Si4703_chip (setMute Si4703_chip True tuned_radio)) \<and>
   \<not> fst (getMute Si4703_chip (setMute Si4703_chip False tuned_radio))"
  using setMute_writes_DMUTE [of Si4703_chip True tuned_radio tuned_radio]
    setMute_writes_DMUTE [of Si4703_chip False tuned_radio tuned_radio]
  by simp

subsection \<open>Volume\<close>

text \<open>
  Claim C7. With the chip returning the control words written to it,
  \<^verbatim>\<open>setVolume(v)\<close> stores \<open>max 0 (min 15 v)\<close> in the chip's 4-bit VOLUME field and
  returns it; so \<^verbatim>\<open>setVolume(-5)\<close> gives 0 and \<^verbatim>\<open>setVolume(99)\<close> gives 15;
  \<^verbatim>\<open>incVolume\<close> at volume 15 leaves 15 and \<^verbatim>\<open>decVolume\<close> at volume 0 leaves 0.
\<close>

theorem setVolume_clamps:
  "fst (setVolume Si4703_chip v s) = max 0 (min 15 v) \<and>
   chip_field VOLUME (dev (snd (setVolume Si4703_chip v s))) = max 0 (min 15 v) \<and>
   fst (setVolume Si4703_chip (- 5) s) = 0 \<and>
   chip_field VOLUME (dev (snd (setVolume Si4703_chip (- 5) s))) = 0 \<and>
   fst (setVolume Si4703_chip 99 s) = 15 \<and>
   chip_field VOLUME (dev (snd (setVolume Si4703_chip 99 s))) = 15 \<and>
   (chip_field VOLUME (dev s) = 15 \<longrightarrow>
      fst (incVolume Si4703_chip s) = 15 \<and>
      chip_field VOLUME (dev (snd (incVolume Si4703_chip s))) = 15) \<and>
   (chip_field VOLUME (dev s) = 0 \<longrightarrow>
      fst (decVolume Si4703_chip s) = 0 \<and>
      chip_field VOLUME (dev (snd (decVolume Si4703_chip s))) = 0)"
  using setVolume_chip [of v s] setVolume_chip [of "- 5" s] setVolume_chip [of 99 s]
    setVolume_chip [of 16 "getShadow Si4703_chip s"]
    setVolume_chip [of "- 1" "getShadow Si4703_chip s"]
  by (simp add: incVolume_def decVolume_def getVolume_chip)

theorem setVolume_clamps_witness:
  "chip_field VOLUME (dev loud_radio) = 15 \<and>
   chip_field VOLUME (dev tuned_radio) = 0 \<and>
   fst (incVolume Si4703_chip loud_radio) = 15 \<and>
   chip_field VOLUME (dev (snd (incVolume Si4703_chip loud_radio))) = 15 \<and>
   fst (decVolume Si4703_chip tuned_radio) = 0 \<and>
   chip_field VOLUME (dev (snd (decVolume Si4703_chip tuned_radio))) = 0 \<and>
   fst (setVolume Si4703_chip 7 tuned_radio) = 7"
proof -
  have quiet: "chip_field VOLUME (dev tuned_radio) = 0"
    by (simp add: chip_field_def VOLUME_def get_bits_def tuned_radio_def radio_def setRegion_def
        Si4703_new_def raw_memory_def demo_chip_def BAND_US_EU_def SPACE_100KHz_def)
  have loud: "chip_field VOLUME (dev loud_radio) = 15"
    unfolding loud_radio_def using setVolume_clamps [of 15 tuned_radio] by simp
  show ?thesis
    using setVolume_clamps [of 7 loud_radio] setVolume_clamps [of 7 tuned_radio] quiet loud
    by simp
qed

subsection \<open>GPIO writes\<close>

text \<open>
  Claim C10. \<^verbatim>\<open>writeGPIO\<close> always runs one full shadow read followed by one
  write-back of the six control words. With a pin other than 1, 2 and 3 the shadow is
  what was just read. With pin 1, 2 or 3 the 2-bit field GPIO1, GPIO2 or GPIO3 of
  SYSCONFIG1 receives the two low bits of \<open>val\<close> (which is \<open>val\<close> itself for the four
  GPIO modes 0 to 3), and every other bit of SYSCONFIG1 and every other word is what was
  just read.
\<close>

theorem writeGPIO_frame:
  "trace (writeGPIO W pin val s) =
     trace s @ [BusRead I2C_ADDR 32 (take 32 (fst (dev_read W (dev s) 32))),
                BusWrite I2C_ADDR (control_bytes (shadow (writeGPIO W pin val s)))] \<and>
   (\<forall>i. i \<noteq> reg_index SYSCONFIG1 \<longrightarrow>
        shadow (writeGPIO W pin val s) i = shadow (getShadow W s) i) \<and>
   (pin \<notin> {GPIO1, GPIO2, GPIO3} \<longrightarrow>
      shadow (writeGPIO W pin val s) = shadow (getShadow W s)) \<and>
   (pin = GPIO1 \<longrightarrow>
      rd_field F_GPIO1 (writeGPIO W pin val s) = val mod 4 \<and>
      (\<forall>b. b \<notin> {0, 1} \<longrightarrow>
         bit (shadow (writeGPIO W pin val s) 10) b = bit (shadow (getShadow W s) 10) b)) \<and>
   (pin = GPIO2 \<longrightarrow>
      rd_field F_GPIO2 (writeGPIO W pin val s) = val mod 4 \<and>
      (\<forall>b. b \<notin> {2, 3} \<longrightarrow>
         bit (shadow (writeGPIO W pin val s) 10) b = bit (shadow (getShadow W s) 10) b)) \<and>
   (pin = GPIO3 \<longrightarrow>
      rd_field F_GPIO3 (writeGPIO W pin val s) = val mod 4 \<and>
      (\<forall>b. b \<notin> {4, 5} \<longrightarrow>
         bit (shadow (writeGPIO W pin val s) 10) b = bit (shadow (getShadow W s) 10) b))"
proof -
  let ?s1 = "getShadow W s"
  let ?s' = "writeGPIO W pin val s"
  have tr: "trace ?s' =
     trace s @ [BusRead I2C_ADDR 32 (take 32 (fst (dev_read W (dev s) 32))),
                BusWrite I2C_ADDR (control_bytes (shadow ?s'))]"
    by (simp add: writeGPIO_def Let_def putShadow_trace putShadow_shadow wr_field_simps
        getShadow_trace)
  have other: "\<forall>i. i \<noteq> reg_index SYSCONFIG1 \<longrightarrow> shadow ?s' i = shadow ?s1 i"
    by (simp add: writeGPIO_def Let_def putShadow_shadow wr_field_simps
        F_GPIO1_def F_GPIO2_def F_GPIO3_def)
  have none: "pin \<notin> {GPIO1, GPIO2, GPIO3} \<longrightarrow> shadow ?s' = shadow ?s1"
    by (simp add: writeGPIO_def Let_def putShadow_shadow)
  have g1: "pin = GPIO1 \<longrightarrow>
      rd_field F_GPIO1 ?s' = val mod 4 \<and>
      (\<forall>b. b \<notin> {0, 1} \<longrightarrow> bit (shadow ?s' 10) b = bit (shadow ?s1 10) b)"
    by (auto simp: writeGPIO_def Let_def putShadow_shadow wr_field_simps rd_field_def
        F_GPIO1_def uint_get_set_bits bit_set_bits)
  have g2: "pin = GPIO2 \<longrightarrow>
      rd_field F_GPIO2 ?s' = val mod 4 \<and>
      (\<forall>b. b \<notin> {2, 3} \<longrightarrow> bit (shadow ?s' 10) b = bit (shadow ?s1 10) b)"
    by (auto simp: writeGPIO_def Let_def putShadow_shadow wr_field_simps rd_field_def
        F_GPIO2_def GPIO1_def GPIO2_def uint_get_set_bits bit_set_bits)
  have g3: "pin = GPIO3 \<longrightarrow>
      rd_field F_GPIO3 ?s' = val mod 4 \<and>
      (\<forall>b. b \<notin> {4, 5} \<longrightarrow> bit (shadow ?s' 10) b = bit (shadow ?s1 10) b)"
    by (auto simp: writeGPIO_def Let_def putShadow_shadow wr_field_simps rd_field_def
        F_GPIO3_def GPIO1_def GPIO2_def GPIO3_def uint_get_set_bits bit_set_bits)
  from tr other none g1 g2 g3 show ?thesis by blast
qed

theorem writeGPIO_frame_witness:
  "(9::int) \<notin> {GPIO1, GPIO2, GPIO3} \<and> (7::nat) \<notin> {2, 3} \<and> (9::nat) \<noteq> reg_index SYSCONFIG1 \<and>
   shadow (writeGPIO Si4703_chip 9 3 tagged_radio) = shadow (getShadow Si4703_chip tagged_radio) \<and>
   rd_field F_GPIO1 (writeGPIO Si4703_chip GPIO1 3 tagged_radio) = 3 \<and>
   rd_field F_GPIO2 (writeGPIO Si4703_chip GPIO2 2 tagged_radio) = 2 \<and>
   rd_field F_GPIO3 (writeGPIO Si4703_chip GPIO3 1 tagged_radio) = 1 \<and>
   bit (shadow (writeGPIO Si4703_chip GPIO2 2 tagged_radio) 10) 7 =
     bit (shadow (getShadow Si4703_chip tagged_radio) 10) 7 \<and>
   shadow (writeGPIO Si4703_chip GPIO2 2 tagged_radio) 9 =
     shadow (getShadow Si4703_chip tagged_radio) 9"
  using writeGPIO_frame [of Si4703_chip 9 3 tagged_radio]
    writeGPIO_frame [of Si4703_chip GPIO1 3 tagged_radio]
    writeGPIO_frame [of Si4703_chip GPIO2 2 tagged_radio]
    writeGPIO_frame [of Si4703_chip GPIO3 1 tagged_radio]
  by (simp add: GPIO1_def GPIO2_def GPIO3_def)

subsection \<open>Frequency round trip\<close>

text \<open>
  Claim C1. \<^verbatim>\<open>setChannel(freq)\<close> behaves as \<^verbatim>\<open>setChannel\<close> of \<open>freq\<close> clamped into
  [\<^verbatim>\<open>_bandStart\<close>, \<^verbatim>\<open>_bandEnd\<close>]. On the chip model, with the band fields holding a
  band whose channels fit the channel field and whose limits, width and spacing fit an
  \<^verbatim>\<open>int\<close> (\<open>band_ok\<close>), no command in flight, the STC interrupt disabled and enough
  polls allowed for the chip's latency, \<^verbatim>\<open>setChannel\<close> returns, the channel written is
  the truncated quotient of \<open>freq - bandStart\<close> by the spacing, and both the value
  returned and a following \<^verbatim>\<open>getChannel\<close> give
  \<open>bandStart + spacing * ((freq - bandStart) div spacing)\<close>; for \<open>freq\<close> in the band no
  clamping takes place. The difference, the quotient, the product and the sum the driver
  forms on the way all lie in the \<^verbatim>\<open>int\<close> range, so the code's arithmetic does not
  overflow; \<open>freq\<close> itself is any integer.
\<close>

theorem setChannel_roundtrip:
  fixes s :: "chip Si4703"
  assumes "band_ok s" and "chip_idle (dev s)" and "chip_polling (dev s)" and "latency (dev s) < n"
  shows "setChannel n Si4703_chip freq s =
           setChannel n Si4703_chip (max (m_bandStart s) (min (m_bandEnd s) freq)) s \<and>
         (\<exists>s'. setChannel n Si4703_chip freq s =
                  Done (m_bandStart s + m_bandSpacing s *
                          ((max (m_bandStart s) (min (m_bandEnd s) freq) - m_bandStart s)
                             div m_bandSpacing s), s') \<and>
               chip_field CHAN (dev s') =
                 (max (m_bandStart s) (min (m_bandEnd s) freq) - m_bandStart s) div m_bandSpacing s \<and>
               fst (getChannel Si4703_chip s') =
                 m_bandStart s + m_bandSpacing s *
                   ((max (m_bandStart s) (min (m_bandEnd s) freq) - m_bandStart s)
                      div m_bandSpacing s)) \<and>
         (m_bandStart s \<le> freq \<and> freq \<le> m_bandEnd s \<longrightarrow>
            (\<exists>s'. setChannel n Si4703_chip freq s =
                     Done (m_bandStart s + m_bandSpacing s *
                             ((freq - m_bandStart s) div m_bandSpacing s), s') \<and>
                  fst (getChannel Si4703_chip s') =
                    m_bandStart s + m_bandSpacing s * ((freq - m_bandStart s) div m_bandSpacing s))) \<and>
         fits_int (max (m_bandStart s) (min (m_bandEnd s) freq) - m_bandStart s) \<and>
         fits_int ((max (m_bandStart s) (min (m_bandEnd s) freq) - m_bandStart s)
                     div m_bandSpacing s) \<and>
         fits_int (m_bandSpacing s *
                     ((max (m_bandStart s) (min (m_bandEnd s) freq) - m_bandStart s)
                        div m_bandSpacing s)) \<and>
         fits_int (m_bandStart s + m_bandSpacing s *
                     ((max (m_bandStart s) (min (m_bandEnd s) freq) - m_bandStart s)
                        div m_bandSpacing s))"
proof -
  define f where "f = max (m_bandStart s) (min (m_bandEnd s) freq)"
  have le: "m_bandStart s \<le> m_bandEnd s" using assms(1) by (simp add: band_ok_def)
  have clamp: "setChannel n Si4703_chip freq s = setChannel n Si4703_chip f s"
    unfolding f_def by (rule setChannel_clamp [OF le])
  have inb: "m_bandStart s \<le> f" "f \<le> m_bandEnd s"
    using le by (auto simp: f_def)
  obtain s' where run: "setChannel n Si4703_chip f s =
        Done (m_bandSpacing s * ((f - m_bandStart s) div m_bandSpacing s) + m_bandStart s, s')"
    and c: "cfg s' = cfg s" and i: "chip_idle (dev s')"
    and rc: "chip_field F_READCHAN (dev s') = (f - m_bandStart s) div m_bandSpacing s"
    and cc: "chip_field CHAN (dev s') = (f - m_bandStart s) div m_bandSpacing s"
    using setChannel_chip_inband [OF assms inb] by blast
  have gc: "fst (getChannel Si4703_chip s') =
      m_bandStart s + m_bandSpacing s * ((f - m_bandStart s) div m_bandSpacing s)"
    using cfg_fields [OF c] by (simp add: getChannel_chip_idle [OF i] rc)
  have main: "\<exists>s'. setChannel n Si4703_chip freq s =
                  Done (m_bandStart s + m_bandSpacing s * ((f - m_bandStart s) div m_bandSpacing s), s') \<and>
               chip_field CHAN (dev s') = (f - m_bandStart s) div m_bandSpacing s \<and>
               fst (getChannel Si4703_chip s') =
                 m_bandStart s + m_bandSpacing s * ((f - m_bandStart s) div m_bandSpacing s)"
    using run cc gc by (auto simp: clamp add.commute)
  have "f = freq" if "m_bandStart s \<le> freq \<and> freq \<le> m_bandEnd s"
    using that by (auto simp: f_def)
  with main have inband: "m_bandStart s \<le> freq \<and> freq \<le> m_bandEnd s \<longrightarrow>
            (\<exists>s'. setChannel n Si4703_chip freq s =
                     Done (m_bandStart s + m_bandSpacing s *
                             ((freq - m_bandStart s) div m_bandSpacing s), s') \<and>
                  fst (getChannel Si4703_chip s') =
                    m_bandStart s + m_bandSpacing s * ((freq - m_bandStart s) div m_bandSpacing s))"
    by auto
  have range: "fits_int (f - m_bandStart s) \<and>
         fits_int ((f - m_bandStart s) div m_bandSpacing s) \<and>
         fits_int (m_bandSpacing s * ((f - m_bandStart s) div m_bandSpacing s)) \<and>
         fits_int (m_bandStart s + m_bandSpacing s * ((f - m_bandStart s) div m_bandSpacing s))"
    by (rule band_ok_values [OF assms(1) inb])
  from clamp main inband range show ?thesis unfolding f_def by blast
qed

theorem setChannel_roundtrip_witness:
  "band_ok tuned_radio \<and> chip_idle (dev tuned_radio) \<and> chip_polling (dev tuned_radio) \<and>
   latency (dev tuned_radio) < 3 \<and>
   m_bandStart tuned_radio \<le> 9871 \<and> 9871 \<le> m_bandEnd tuned_radio \<and>
   fits_int (9871 - m_bandStart tuned_radio) \<and> fits_int 9870 \<and>
   (\<exists>s'. setChannel 3 Si4703_chip 9871 tuned_radio = Done (9870, s') \<and>
         fst (getChannel Si4703_chip s') = 9870) \<and>
   (\<exists>s'. setChannel 3 Si4703_chip 9870 tuned_radio = Done (9870, s')) \<and>
   (\<exists>s'. setChannel 3 Si4703_chip 20000 tuned_radio = Done (10800, s')) \<and>
   (\<exists>s'. setChannel 3 Si4703_chip 0 tuned_radio = Done (8750, s'))"
proof -
  have h: "band_ok tuned_radio" "chip_idle (dev tuned_radio)" "chip_polling (dev tuned_radio)"
    "latency (dev tuned_radio) < 3"
    by (simp_all add: band_ok_def fits_int_def tuned_radio_fields demo_chip_ready)
  have r: "fits_int (9871 - m_bandStart tuned_radio) \<and> fits_int 9870"
    using setChannel_roundtrip [OF h, of 9871] by (simp add: tuned_radio_fields)
  have a: "\<exists>s'. setChannel 3 Si4703_chip 9871 tuned_radio = Done (9870, s') \<and>
         fst (getChannel Si4703_chip s') = 9870"
    using setChannel_roundtrip [OF h, of 9871, THEN conjunct2, THEN conjunct1]
    by (auto simp: tuned_radio_fields)
  have b: "\<exists>s'. setChannel 3 Si4703_chip 9870 tuned_radio = Done (9870, s')"
    using setChannel_roundtrip [OF h, of 9870, THEN conjunct2, THEN conjunct1]
    by (auto simp: tuned_radio_fields)
  have c: "\<exists>s'. setChannel 3 Si4703_chip 20000 tuned_radio = Done (10800, s')"
    using setChannel_roundtrip [OF h, of 20000, THEN conjunct2, THEN conjunct1]
    by (auto simp: tuned_radio_fields)
  have d: "\<exists>s'. setChannel 3 Si4703_chip 0 tuned_radio = Done (8750, s')"
    using setChannel_roundtrip [OF h, of 0, THEN conjunct2, THEN conjunct1]
    by (auto simp: tuned_radio_fields)
  show ?thesis
    using h r a b c d by (simp add: tuned_radio_fields)
qed

subsection \<open>Result of a seek\<close>

text \<open>
  Claim C5. On the chip model (no command in flight, STC interrupt disabled, enough polls
  allowed for the chip's latency), with band fields for which the frequency of every
  10-bit channel fits an \<^verbatim>\<open>int\<close> (\<open>readback_ok\<close>), \<^verbatim>\<open>seekUp\<close> and \<^verbatim>\<open>seekDown\<close>
  return. When the chip ends the seek with SFBL set they return 0, whatever channel the
  read-channel register holds; when it ends the seek with SFBL clear they return
  \<open>spacing * READCHAN + bandStart\<close>, the value \<^verbatim>\<open>getChannel\<close> gives afterwards. The
  product and the sum lie in the \<^verbatim>\<open>int\<close> range, so the code's arithmetic does not
  overflow.
\<close>

theorem seek_result:
  fixes s :: "chip Si4703"
  assumes "chip_idle (dev s)" and "chip_polling (dev s)" and "latency (dev s) < n"
    and "readback_ok s"
  shows "(seek_fail (dev s) \<longrightarrow>
            (\<exists>s'. seekUp n Si4703_chip s = Done (0, s') \<and>
                  chip_field F_READCHAN (dev s') = seek_chan (dev s) mod 1024) \<and>
            (\<exists>s'. seekDown n Si4703_chip s = Done (0, s') \<and>
                  chip_field F_READCHAN (dev s') = seek_chan (dev s) mod 1024)) \<and>
         (\<not> seek_fail (dev s) \<longrightarrow>
            (\<exists>s'. seekUp n Si4703_chip s =
                     Done (m_bandSpacing s * (seek_chan (dev s) mod 1024) + m_bandStart s, s') \<and>
                  chip_field F_READCHAN (dev s') = seek_chan (dev s) mod 1024 \<and>
                  fst (getChannel Si4703_chip s') =
                    m_bandSpacing s * (seek_chan (dev s) mod 1024) + m_bandStart s) \<and>
            (\<exists>s'. seekDown n Si4703_chip s =
                     Done (m_bandSpacing s * (seek_chan (dev s) mod 1024) + m_bandStart s, s') \<and>
                  chip_field F_READCHAN (dev s') = seek_chan (dev s) mod 1024 \<and>
                  fst (getChannel Si4703_chip s') =
                    m_bandSpacing s * (seek_chan (dev s) mod 1024) + m_bandStart s)) \<and>
         fits_int (m_bandSpacing s * (seek_chan (dev s) mod 1024)) \<and>
         fits_int (m_bandSpacing s * (seek_chan (dev s) mod 1024) + m_bandStart s)"
proof -
  have core: "\<exists>s'. seek n Si4703_chip dir s =
                 Done (if seek_fail (dev s) then 0
                       else m_bandSpacing s * (seek_chan (dev s) mod 1024) + m_bandStart s, s') \<and>
              chip_field F_READCHAN (dev s') = seek_chan (dev s) mod 1024 \<and>
              fst (getChannel Si4703_chip s') =
                m_bandSpacing s * (seek_chan (dev s) mod 1024) + m_bandStart s" for dir
  proof -
    obtain s' where run: "seek n Si4703_chip dir s =
                 Done (if seek_fail (dev s) then 0
                       else m_bandSpacing s * (seek_chan (dev s) mod 1024) + m_bandStart s, s')"
      and c: "cfg s' = cfg s" and i: "chip_idle (dev s')"
      and rc: "chip_field F_READCHAN (dev s') = seek_chan (dev s) mod 1024"
      using seek_chip [OF assms(1-3), of dir] by blast
    have "fst (getChannel Si4703_chip s') =
                m_bandSpacing s * (seek_chan (dev s) mod 1024) + m_bandStart s"
      using cfg_fields [OF c] by (simp add: getChannel_chip_idle [OF i] rc)
    with run rc show ?thesis by blast
  qed
  have range: "fits_int (m_bandSpacing s * (seek_chan (dev s) mod 1024)) \<and>
         fits_int (m_bandSpacing s * (seek_chan (dev s) mod 1024) + m_bandStart s)"
    by (rule readback_ok_values [OF assms(4)])
  show ?thesis
    using core [of SEEK_UP] core [of SEEK_DOWN] range
    by (auto simp: seekUp_def seekDown_def)
qed

theorem seek_result_witness:
  "chip_idle (dev tuned_radio) \<and> chip_polling (dev tuned_radio) \<and> latency (dev tuned_radio) < 3 \<and>
   readback_ok tuned_radio \<and> \<not> seek_fail (dev tuned_radio) \<and>
   chip_idle (dev dead_end_radio) \<and> chip_polling (dev dead_end_radio) \<and>
   latency (dev dead_end_radio) < 3 \<and> readback_ok dead_end_radio \<and>
   seek_fail (dev dead_end_radio) \<and> fits_int 9300 \<and>
   (\<exists>s'. seekUp 3 Si4703_chip tuned_radio = Done (9300, s')) \<and>
   (\<exists>s'. seekDown 3 Si4703_chip tuned_radio = Done (9300, s')) \<and>
   (\<exists>s'. seekUp 3 Si4703_chip dead_end_radio = Done (0, s') \<and>
         chip_field F_READCHAN (dev s') = 55) \<and>
   (\<exists>s'. seekDown 3 Si4703_chip dead_end_radio = Done (0, s') \<and>
         chip_field F_READCHAN (dev s') = 55)"
proof -
  have h: "chip_idle (dev tuned_radio)" "chip_polling (dev tuned_radio)"
    "latency (dev tuned_radio) < 3" "readback_ok tuned_radio"
    by (simp_all add: tuned_radio_fields demo_chip_ready readback_ok_def fits_int_def)
  have f: "dev dead_end_radio = failing_chip" "seek_fail failing_chip" "seek_chan failing_chip = 55"
    "\<not> seek_fail demo_chip" "seek_chan demo_chip = 55"
    by (simp_all add: dead_end_radio_def failing_chip_def demo_chip_def)
  have g: "chip_idle (dev dead_end_radio)" "chip_polling (dev dead_end_radio)"
    "latency (dev dead_end_radio) < 3" "readback_ok dead_end_radio"
    by (simp_all add: f chip_idle_def chip_polling_def failing_chip_def demo_chip_def
        readback_ok_def fits_int_def dead_end_radio_def tuned_radio_fields)
  have a: "(\<exists>s'. seekUp 3 Si4703_chip tuned_radio = Done (9300, s')) \<and>
           (\<exists>s'. seekDown 3 Si4703_chip tuned_radio = Done (9300, s'))"
    using seek_result [OF h, THEN conjunct2] by (auto simp: tuned_radio_fields f)
  have b: "(\<exists>s'. seekUp 3 Si4703_chip dead_end_radio = Done (0, s') \<and>
                 chip_field F_READCHAN (dev s') = 55) \<and>
           (\<exists>s'. seekDown 3 Si4703_chip dead_end_radio = Done (0, s') \<and>
                 chip_field F_READCHAN (dev s') = 55)"
    using seek_result [OF g, THEN conjunct1] by (simp add: f)
  have r: "fits_int 9300"
    using seek_result [OF h] by (simp add: tuned_radio_fields f)
  show ?thesis
    using h g r a b by (simp add: f tuned_radio_fields)
qed

subsection \<open>Order of the status read and the command clear\<close>



end
